theory Spec2Isabelle
  imports Main
begin

section \<open>Data model\<close>

text \<open>
  The service keeps, for every tenant (``instance''), a collection of user documents.
  The Go structs of package \<open>models\<close> are records; time stamps are Unix seconds
  (\<open>int64\<close> in the source), modelled as \<open>int\<close>, with the wrap-around written out
  at the one place where the source does arithmetic on them (the cutoff of the clean-up job).
  Object ids are carried as their hexadecimal text.
\<close>

record profile =
  ProfileID :: string
  Nickname :: string
  ConsentConfirmedAt :: int
  AvatarID :: string

record account =
  Type :: string
  AccountID :: string
  AccountConfirmedAt :: int
  Password :: string
  PreferredLanguage :: string

record contact_info =
  ContactID :: string
  ContactType :: string
  ContactConfirmedAt :: int
  ContactEmail :: string

record contact_preferences =
  SubscribedToNewsletter :: bool
  SendNewsletterTo :: "string list"

record timestamps =
  CreatedAt :: int
  LastLogin :: int
  LastTokenRefresh :: int

record user =
  ID :: string
  Account :: account
  Roles :: "string list"
  Profiles :: "profile list"
  ContactPreferences :: contact_preferences
  ContactInfos :: "contact_info list"
  RefreshTokens :: "string list"
  Timestamps :: timestamps

subsection \<open>Messages of the API\<close>

record LoginWithEmailMsg =
  login_Email :: string
  login_Password :: string
  login_InstanceId :: string

record SignupWithEmailMsg =
  signup_Email :: string
  signup_Password :: string
  signup_InstanceId :: string
  signup_PreferredLanguage :: string
  signup_WantsNewsletter :: bool

record RefreshTokenRequest =
  req_RefreshToken :: string
  req_UserId :: string
  req_InstanceId :: string

record TokenInfos =
  token_Id :: string
  token_InstanceId :: string

record ProfileRequest =
  Token :: "TokenInfos option"
  Profile :: "profile option"

record UserAuthInfo =
  UserId :: string
  auth_Roles :: "string list"
  InstanceId :: string
  AccountId :: string
  AccountConfirmed :: bool
  auth_Profiles :: "profile list"
  SelectedProfile :: profile
  auth_PreferredLanguage :: string

datatype status_kind = NORMAL | PROBLEM | NOT_SERVING

record ServiceStatus =
  Status :: status_kind
  Msg :: string

text \<open>The account part and the profiles of the converted user (\<open>api.User\<close>).\<close>

record api_user =
  api_AccountId :: string
  api_AccountConfirmedAt :: int
  api_PreferredLanguage :: string
  api_Profiles :: "profile list"

subsection \<open>Results\<close>

text \<open>
  A handler returns \<open>(response, error)\<close>; the error is a gRPC status made by
  \<open>status.Error(code, message)\<close>. An index out of range is a run-time panic of Go:
  the handler returns neither a response nor an error value.
\<close>

datatype code = InvalidArgument | Internal | Unimplemented

datatype 'a outcome = Ok 'a | Err code string | Panic

section \<open>Collaborators that are not part of the sources\<close>

text \<open>
  Packages \<open>pwhash\<close> and \<open>utils\<close> are parameters of the handlers. A Go function
  returning \<open>(value, error)\<close> is a pair whose second component is the error text, if any.
\<close>

record deps =
  ComparePasswordWithHash :: "string \<Rightarrow> string \<Rightarrow> bool \<times> string option"
  HashPassword :: "string \<Rightarrow> string \<times> string option"
  CheckEmailFormat :: "string \<Rightarrow> bool"
  CheckPasswordFormat :: "string \<Rightarrow> bool"

text \<open>
  The user store: the documents of every tenant, together with the failures the store
  currently answers with (per tenant, for reading and for writing; \<open>None\<close> is a healthy
  store). The text is what \<open>err.Error()\<close> gives.
\<close>

record store =
  users :: "string \<Rightarrow> user list"
  read_fault :: "string \<Rightarrow> string option"
  write_fault :: "string \<Rightarrow> string option"

text \<open>
  Modelled from the spec: \<open>userdb.GetUserByEmail\<close> is not among the sources;
  \<open>getByIdentifier(tenant, identifier)\<close> of the UserStore, failing with a store error
  when the store fails or holds no such account.
\<close>

definition GetUserByEmail :: "store \<Rightarrow> string \<Rightarrow> string \<Rightarrow> string + user" where
  "GetUserByEmail s instanceID email =
     (case read_fault s instanceID of
        Some e \<Rightarrow> Inl e
      | None \<Rightarrow>
          (case find (\<lambda>u. AccountID (Account u) = email) (users s instanceID) of
             None \<Rightarrow> Inl ''no documents in result''
           | Some u \<Rightarrow> Inr u))"

text \<open>
  Modelled from the spec: \<open>userdb.GetUserByID\<close> is not among the sources;
  \<open>getById(tenant, id)\<close> of the UserStore.
\<close>

definition GetUserByID :: "store \<Rightarrow> string \<Rightarrow> string \<Rightarrow> string + user" where
  "GetUserByID s instanceID uid =
     (case read_fault s instanceID of
        Some e \<Rightarrow> Inl e
      | None \<Rightarrow>
          (case find (\<lambda>u. ID u = uid) (users s instanceID) of
             None \<Rightarrow> Inl ''no documents in result''
           | Some u \<Rightarrow> Inr u))"

text \<open>
  Modelled from the spec: the replacement of a stored document (part of package
  \<open>userdb\<close>, not among the sources): the document with the record's id becomes the record.
\<close>

definition replace_user :: "user \<Rightarrow> user list \<Rightarrow> user list" where
  "replace_user u us = map (\<lambda>v. if ID v = ID u then u else v) us"

text \<open>
  Modelled from the spec: \<open>userdb.UpdateLoginTime\<close> is not among the sources;
  ``update \<open>lastLoginEpoch\<close>, persist''. A failing store changes nothing.
\<close>

definition UpdateLoginTime :: "store \<Rightarrow> string \<Rightarrow> string \<Rightarrow> int \<Rightarrow> string option \<times> store" where
  "UpdateLoginTime s instanceID uid now =
     (case write_fault s instanceID of
        Some e \<Rightarrow> (Some e, s)
      | None \<Rightarrow>
          (case find (\<lambda>u. ID u = uid) (users s instanceID) of
             None \<Rightarrow> (Some ''no documents in result'', s)
           | Some u \<Rightarrow>
               (None, s\<lparr>users := (users s)(instanceID :=
                  replace_user (u\<lparr>Timestamps := (Timestamps u)\<lparr>LastLogin := now\<rparr>\<rparr>)
                    (users s instanceID))\<rparr>)))"

text \<open>
  Modelled from the spec: \<open>models.Profile.ToAPI\<close> is not among the sources; a
  profile of the session information is the stored profile (id, nickname, consent
  time, avatar).
\<close>

definition ProfileToAPI :: "profile \<Rightarrow> profile" where
  "ProfileToAPI p = p"

text \<open>
  Modelled from the spec: \<open>models.User.ToAPI\<close> is not among the sources; the
  session information carries the account's identifier, confirmation time, language
  and profiles as they are stored.
\<close>

definition ToAPI :: "user \<Rightarrow> api_user" where
  "ToAPI u =
     \<lparr>api_AccountId = AccountID (Account u),
      api_AccountConfirmedAt = AccountConfirmedAt (Account u),
      api_PreferredLanguage = PreferredLanguage (Account u),
      api_Profiles = map ProfileToAPI (Profiles u)\<rparr>"

text \<open>
  Modelled from the spec: \<open>userdb.UpdateUser\<close> is not among the sources;
  \<open>update(tenant, record) -> record\<close> of the UserStore: the stored document with
  the record's id is replaced by the record.
\<close>

definition UpdateUser :: "store \<Rightarrow> string \<Rightarrow> user \<Rightarrow> (string + user) \<times> store" where
  "UpdateUser s instanceID u =
     (case write_fault s instanceID of
        Some e \<Rightarrow> (Inl e, s)
      | None \<Rightarrow>
          (case find (\<lambda>v. ID v = ID u) (users s instanceID) of
             None \<Rightarrow> (Inl ''no documents in result'', s)
           | Some _ \<Rightarrow>
               (Inr u, s\<lparr>users := (users s)(instanceID := replace_user u (users s instanceID))\<rparr>)))"

text \<open>
  Modelled from the spec: \<open>userdb.AddUser\<close> is not among the sources;
  \<open>insert(tenant, record) -> id\<close> of the UserStore. The id (\<open>new_id\<close>) is assigned at
  creation, as is \<open>createdAtEpoch\<close>; the login identifier stays unique within a tenant.
\<close>

definition AddUser ::
  "store \<Rightarrow> string \<Rightarrow> user \<Rightarrow> string \<Rightarrow> int \<Rightarrow> (string + string) \<times> store" where
  "AddUser s instanceID u new_id now =
     (case write_fault s instanceID of
        Some e \<Rightarrow> (Inl e, s)
      | None \<Rightarrow>
          if AccountID (Account u) \<in> set (map (\<lambda>v. AccountID (Account v)) (users s instanceID))
          then (Inl ''user already exists'', s)
          else (Inr new_id,
                s\<lparr>users := (users s)(instanceID := users s instanceID @
                     [u\<lparr>ID := new_id, Timestamps := (Timestamps u)\<lparr>CreatedAt := now\<rparr>\<rparr>])\<rparr>))"

text \<open>
  Modelled from the spec: what the clean-up deletes (the query of
  \<open>userdb.DeleteUnverfiedUsers\<close>, not among the sources): accounts with
  \<open>confirmedAtEpoch == 0\<close> and \<open>createdAtEpoch\<close> below the cutoff.
\<close>

definition unverified_before :: "int \<Rightarrow> user \<Rightarrow> bool" where
  "unverified_before createdBefore u \<longleftrightarrow>
     AccountConfirmedAt (Account u) = 0 \<and> CreatedAt (Timestamps u) < createdBefore"

text \<open>
  Modelled from the spec: \<open>userdb.DeleteUnverfiedUsers\<close> is not among the sources;
  \<open>deleteUnconfirmedOlderThan(tenant, cutoffEpoch) -> count\<close> of the UserStore deletes
  every account with \<open>confirmedAtEpoch == 0\<close> and \<open>createdAtEpoch\<close> below the cutoff.
\<close>

definition DeleteUnverfiedUsers :: "store \<Rightarrow> string \<Rightarrow> int \<Rightarrow> (nat \<times> string option) \<times> store" where
  "DeleteUnverfiedUsers s instanceID createdBefore =
     (case write_fault s instanceID of
        Some e \<Rightarrow> ((0, Some e), s)
      | None \<Rightarrow>
          ((length (filter (unverified_before createdBefore) (users s instanceID)), None),
           s\<lparr>users := (users s)(instanceID :=
                filter (\<lambda>u. \<not> unverified_before createdBefore u) (users s instanceID))\<rparr>))"

subsection \<open>Methods of the user document\<close>

text \<open>
  Modelled from the spec: \<open>models.User.AddNewEmail\<close> is not among the sources; it
  registers the address as a contact channel, unverified unless \<open>confirmed\<close>.
\<close>

definition AddNewEmail :: "user \<Rightarrow> string \<Rightarrow> bool \<Rightarrow> string \<Rightarrow> int \<Rightarrow> user" where
  "AddNewEmail u addr confirmed new_id now =
     u\<lparr>ContactInfos := ContactInfos u @
         [\<lparr>ContactID = new_id, ContactType = ''email'',
           ContactConfirmedAt = (if confirmed then now else 0), ContactEmail = addr\<rparr>]\<rparr>"

text \<open>
  Modelled from the spec: \<open>models.User.AddRefreshToken\<close> is not among the sources;
  it appends the token to \<open>refreshTokens\<close>, rejecting a duplicate with no mutation.
  The caller takes no result from it.
\<close>

definition AddRefreshToken :: "user \<Rightarrow> string \<Rightarrow> user" where
  "AddRefreshToken u token =
     (if token \<in> set (RefreshTokens u) then u
      else u\<lparr>RefreshTokens := RefreshTokens u @ [token]\<rparr>)"

text \<open>
  Modelled from the spec: \<open>models.User.RemoveRefreshToken\<close> is not among the sources;
  it removes the token from \<open>refreshTokens\<close> and fails if the token is absent.
\<close>

definition RemoveRefreshToken :: "user \<Rightarrow> string \<Rightarrow> string + user" where
  "RemoveRefreshToken u token =
     (if token \<in> set (RefreshTokens u)
      then Inr (u\<lparr>RefreshTokens := removeAll token (RefreshTokens u)\<rparr>)
      else Inl ''token was missing'')"

text \<open>
  Modelled from the spec: \<open>models.User.FindProfile\<close> is not among the sources; it
  gives the profile of the account with the requested id and fails if the id is not
  among the account's profiles.
\<close>

definition FindProfile :: "user \<Rightarrow> string \<Rightarrow> string + profile" where
  "FindProfile u pid =
     (case find (\<lambda>p. ProfileID p = pid) (Profiles u) of
        None \<Rightarrow> Inl ''profile with given ID not found''
      | Some p \<Rightarrow> Inr p)"

text \<open>
  Modelled from the spec: \<open>utils.IsTokenEmpty\<close> is not among the sources; every
  operation is scoped to (tenant, user id), so a token is empty when it is missing
  or names no user or no tenant.
\<close>

definition IsTokenEmpty :: "TokenInfos option \<Rightarrow> bool" where
  "IsTokenEmpty t =
     (case t of None \<Rightarrow> True | Some ti \<Rightarrow> token_Id ti = [] \<or> token_InstanceId ti = [])"

section \<open>The handlers\<close>

subsection \<open>LoginWithEmail\<close>

definition LoginWithEmail ::
  "deps \<Rightarrow> store \<Rightarrow> int \<Rightarrow> LoginWithEmailMsg option \<Rightarrow> UserAuthInfo outcome \<times> store" where
  "LoginWithEmail d s now req =
     (case req of
        None \<Rightarrow> (Err InvalidArgument ''invalid username and/or password'', s)
      | Some r \<Rightarrow>
          if login_Email r = [] \<or> login_Password r = []
          then (Err InvalidArgument ''invalid username and/or password'', s)
          else
            let instanceID = (if login_InstanceId r = [] then ''default'' else login_InstanceId r)
            in (case GetUserByEmail s instanceID (login_Email r) of
                  Inl e \<Rightarrow> (Err InvalidArgument ''invalid username and/or password'', s)
                | Inr user \<Rightarrow>
                    (case ComparePasswordWithHash d (Password (Account user)) (login_Password r) of
                       (match, err) \<Rightarrow>
                         if err \<noteq> None \<or> \<not> match
                         then (Err InvalidArgument ''invalid username and/or password'', s)
                         else
                           (case UpdateLoginTime s instanceID (ID user) now of
                              (Some e, s') \<Rightarrow> (Err InvalidArgument e, s')
                            | (None, s') \<Rightarrow>
                                let username =
                                      (if length (Roles user) > 1 \<or>
                                          length (Roles user) = 1 \<and> Roles user ! 0 \<noteq> ''PARTICIPANT''
                                       then AccountID (Account user) else []);
                                    apiUser = ToAPI user
                                in (case api_Profiles apiUser of
                                      [] \<Rightarrow> (Panic, s')
                                    | p0 # _ \<Rightarrow>
                                        (Ok \<lparr>UserId = ID user,
                                             auth_Roles = Roles user,
                                             InstanceId = instanceID,
                                             AccountId = username,
                                             AccountConfirmed = (api_AccountConfirmedAt apiUser > 0),
                                             auth_Profiles = api_Profiles apiUser,
                                             SelectedProfile = p0,
                                             auth_PreferredLanguage = api_PreferredLanguage apiUser\<rparr>,
                                         s'))))))"

subsection \<open>SignupWithEmail\<close>

text \<open>
  \<open>primitive.NewObjectID()\<close> and the id the store assigns are supplied by the
  environment (\<open>profile_oid\<close>, \<open>contact_oid\<close>, \<open>user_oid\<close>), as is the clock. The
  struct literal leaves the id, the contact data and the time stamps at their zero values.
\<close>

definition SignupWithEmail ::
  "deps \<Rightarrow> store \<Rightarrow> int \<Rightarrow> string \<Rightarrow> string \<Rightarrow> string \<Rightarrow> SignupWithEmailMsg option
     \<Rightarrow> UserAuthInfo outcome \<times> store" where
  "SignupWithEmail d s now profile_oid contact_oid user_oid req =
     (case req of
        None \<Rightarrow> (Err InvalidArgument ''missing argument'', s)
      | Some r \<Rightarrow>
          if \<not> CheckEmailFormat d (signup_Email r)
          then (Err InvalidArgument ''email not valid'', s)
          else if \<not> CheckPasswordFormat d (signup_Password r)
          then (Err InvalidArgument ''password too weak'', s)
          else
            (case HashPassword d (signup_Password r) of
               (password, Some e) \<Rightarrow> (Err Internal e, s)
             | (password, None) \<Rightarrow>
                 let newUser0 =
                       \<lparr>ID = ''000000000000000000000000'',
                        Account =
                          \<lparr>Type = ''email'',
                           AccountID = signup_Email r,
                           AccountConfirmedAt = 0,
                           Password = password,
                           PreferredLanguage = signup_PreferredLanguage r\<rparr>,
                        Roles = [''PARTICIPANT''],
                        Profiles =
                          [\<lparr>ProfileID = profile_oid,
                            Nickname = signup_Email r,
                            ConsentConfirmedAt = now,
                            AvatarID = ''default''\<rparr>],
                        ContactPreferences =
                          \<lparr>SubscribedToNewsletter = False, SendNewsletterTo = []\<rparr>,
                        ContactInfos = [],
                        RefreshTokens = [],
                        Timestamps = \<lparr>CreatedAt = 0, LastLogin = 0, LastTokenRefresh = 0\<rparr>\<rparr>;
                     newUser1 = AddNewEmail newUser0 (signup_Email r) False contact_oid now
                 in (case (if signup_WantsNewsletter r
                           then (case ContactInfos newUser1 of
                                   [] \<Rightarrow> None
                                 | c0 # _ \<Rightarrow>
                                     Some (newUser1\<lparr>ContactPreferences :=
                                       (ContactPreferences newUser1)
                                         \<lparr>SubscribedToNewsletter := True,
                                          SendNewsletterTo := [ContactID c0]\<rparr>\<rparr>))
                           else Some newUser1) of
                       None \<Rightarrow> (Panic, s)
                     | Some newUser \<Rightarrow>
                         let instanceID =
                               (if signup_InstanceId r = [] then ''default'' else signup_InstanceId r)
                         in (case AddUser s instanceID newUser user_oid now of
                               (Inl e, s') \<Rightarrow> (Err Internal e, s')
                             | (Inr uid, s') \<Rightarrow>
                                 let username =
                                       (if length (Roles newUser) > 1 \<or>
                                           length (Roles newUser) = 1 \<and>
                                           Roles newUser ! 0 \<noteq> ''PARTICIPANT''
                                        then AccountID (Account newUser) else []);
                                     apiUser = ToAPI newUser
                                 in (case api_Profiles apiUser of
                                       [] \<Rightarrow> (Panic, s')
                                     | p0 # _ \<Rightarrow>
                                         (Ok \<lparr>UserId = uid,
                                              auth_Roles = Roles newUser,
                                              InstanceId = instanceID,
                                              AccountId = username,
                                              AccountConfirmed = False,
                                              auth_Profiles = api_Profiles apiUser,
                                              SelectedProfile = p0,
                                              auth_PreferredLanguage = api_PreferredLanguage apiUser\<rparr>,
                                          s'))))))"

subsection \<open>CheckRefreshToken and TokenRefreshed\<close>

definition CheckRefreshToken ::
  "store \<Rightarrow> int \<Rightarrow> RefreshTokenRequest option \<Rightarrow> ServiceStatus outcome \<times> store" where
  "CheckRefreshToken s now req =
     (case req of
        None \<Rightarrow> (Err InvalidArgument ''missing argument'', s)
      | Some r \<Rightarrow>
          if req_RefreshToken r = [] \<or> req_UserId r = [] \<or> req_InstanceId r = []
          then (Err InvalidArgument ''missing argument'', s)
          else
            (case GetUserByID s (req_InstanceId r) (req_UserId r) of
               Inl e \<Rightarrow> (Err Internal ''user not found'', s)
             | Inr user \<Rightarrow>
                 (case RemoveRefreshToken user (req_RefreshToken r) of
                    Inl e \<Rightarrow> (Err Internal ''token not found'', s)
                  | Inr user1 \<Rightarrow>
                      let user2 = user1\<lparr>Timestamps := (Timestamps user1)\<lparr>LastTokenRefresh := now\<rparr>\<rparr>
                      in (case UpdateUser s (req_InstanceId r) user2 of
                            (Inl e, s') \<Rightarrow> (Err Internal e, s')
                          | (Inr user3, s') \<Rightarrow>
                              (Ok \<lparr>Status = NORMAL, Msg = ''refresh token removed''\<rparr>, s')))))"

definition TokenRefreshed ::
  "store \<Rightarrow> int \<Rightarrow> RefreshTokenRequest option \<Rightarrow> ServiceStatus outcome \<times> store" where
  "TokenRefreshed s now req =
     (case req of
        None \<Rightarrow> (Err InvalidArgument ''missing argument'', s)
      | Some r \<Rightarrow>
          if req_RefreshToken r = [] \<or> req_UserId r = [] \<or> req_InstanceId r = []
          then (Err InvalidArgument ''missing argument'', s)
          else
            (case GetUserByID s (req_InstanceId r) (req_UserId r) of
               Inl e \<Rightarrow> (Err Internal ''user not found'', s)
             | Inr user \<Rightarrow>
                 let user1 = AddRefreshToken user (req_RefreshToken r);
                     user2 = user1\<lparr>Timestamps := (Timestamps user1)\<lparr>LastTokenRefresh := now\<rparr>\<rparr>
                 in (case UpdateUser s (req_InstanceId r) user2 of
                       (Inl e, s') \<Rightarrow> (Err Internal e, s')
                     | (Inr user3, s') \<Rightarrow>
                         (Ok \<lparr>Status = NORMAL, Msg = ''token refresh time updated''\<rparr>, s'))))"

subsection \<open>SwitchProfile\<close>

text \<open>
  After the guard, \<open>req.Token\<close> and \<open>req.Profile\<close> are dereferenced; a nil pointer
  there would be a panic.
\<close>

definition SwitchProfile :: "store \<Rightarrow> ProfileRequest option \<Rightarrow> UserAuthInfo outcome \<times> store" where
  "SwitchProfile s req =
     (case req of
        None \<Rightarrow> (Err InvalidArgument ''missing argument'', s)
      | Some r \<Rightarrow>
          if IsTokenEmpty (Token r) \<or> Profile r = None
          then (Err InvalidArgument ''missing argument'', s)
          else
            (case (Token r, Profile r) of
               (Some tok, Some prof) \<Rightarrow>
                 (case GetUserByID s (token_InstanceId tok) (token_Id tok) of
                    Inl e \<Rightarrow> (Err Internal ''user not found'', s)
                  | Inr user \<Rightarrow>
                      (case FindProfile user (ProfileID prof) of
                         Inl e \<Rightarrow> (Err Internal ''profile not found'', s)
                       | Inr profile \<Rightarrow>
                           let apiUser = ToAPI user
                           in (Ok \<lparr>UserId = ID user,
                                   auth_Roles = Roles user,
                                   InstanceId = token_InstanceId tok,
                                   AccountId = api_AccountId apiUser,
                                   AccountConfirmed = (api_AccountConfirmedAt apiUser > 0),
                                   auth_Profiles = api_Profiles apiUser,
                                   SelectedProfile = ProfileToAPI profile,
                                   auth_PreferredLanguage = api_PreferredLanguage apiUser\<rparr>,
                               s)))
             | _ \<Rightarrow> (Panic, s)))"

section \<open>The clean-up job for unverified users\<close>

text \<open>
  \<open>time.Now().Unix() - deleteUnverifiedUsersAfter\<close> is a subtraction of \<open>int64\<close>
  values: it wraps around.
\<close>

definition int64 :: "int \<Rightarrow> int" where
  "int64 x = (x + 2 ^ 63) mod 2 ^ 64 - 2 ^ 63"

record Instance =
  InstanceID :: string

text \<open>
  The timer service holds the directory of tenants (what \<open>GetAllInstances\<close> answers: the
  instances and the error, if any) and the retention threshold. The job returns nothing;
  what it does is seen in the store and in the lines it logs.
\<close>

record UserManagementTimerService =
  GetAllInstances :: "Instance list \<times> string option"
  CleanUpTimeThreshold :: int

datatype log_line =
    Starting
  | Unexpected string
  | Removed string nat

text \<open>
  The loop reads the clock anew for every tenant: \<open>clock k\<close> is the reading of
  \<open>time.Now().Unix()\<close> in the iteration that is \<open>k\<close> steps ahead. A run at one time
  \<open>T\<close> has the clock \<open>\<lambda>_. T\<close>.
\<close>

fun clean_up_loop ::
  "store \<Rightarrow> (nat \<Rightarrow> int) \<Rightarrow> int \<Rightarrow> Instance list \<Rightarrow> log_line list \<times> store" where
  "clean_up_loop s clock deleteUnverifiedUsersAfter [] = ([], s)"
| "clean_up_loop s clock deleteUnverifiedUsersAfter (inst # instances) =
     (case DeleteUnverfiedUsers s (InstanceID inst) (int64 (clock 0 - deleteUnverifiedUsersAfter)) of
        ((count, Some e), s') \<Rightarrow>
          (case clean_up_loop s' (\<lambda>k. clock (Suc k)) deleteUnverifiedUsersAfter instances of
             (lg, s'') \<Rightarrow> (Unexpected e # lg, s''))
      | ((count, None), s') \<Rightarrow>
          (case clean_up_loop s' (\<lambda>k. clock (Suc k)) deleteUnverifiedUsersAfter instances of
             (lg, s'') \<Rightarrow> (Removed (InstanceID inst) count # lg, s'')))"

definition CleanUpUnverifiedUsers ::
  "UserManagementTimerService \<Rightarrow> store \<Rightarrow> (nat \<Rightarrow> int) \<Rightarrow> log_line list \<times> store" where
  "CleanUpUnverifiedUsers svc s clock =
     (case GetAllInstances svc of
        (instances, err) \<Rightarrow>
          let deleteUnverifiedUsersAfter = CleanUpTimeThreshold svc
          in (case clean_up_loop s clock deleteUnverifiedUsersAfter instances of
                (lg, s') \<Rightarrow>
                  (Starting # (case err of Some e \<Rightarrow> [Unexpected e] | None \<Rightarrow> []) @ lg, s')))"

section \<open>Sequences of token operations\<close>

text \<open>
  Issuing (\<open>TokenRefreshed\<close>) and revoking (\<open>CheckRefreshToken\<close>) tokens, one request
  after the other, each at its own time; and the invariant of the data model that no
  account of a tenant holds a refresh token twice.
\<close>

datatype token_op =
    Issue int "RefreshTokenRequest option"
  | Revoke int "RefreshTokenRequest option"

fun token_ops :: "store \<Rightarrow> token_op list \<Rightarrow> store" where
  "token_ops s [] = s"
| "token_ops s (Issue now req # ops) = token_ops (snd (TokenRefreshed s now req)) ops"
| "token_ops s (Revoke now req # ops) = token_ops (snd (CheckRefreshToken s now req)) ops"

definition tokens_distinct :: "store \<Rightarrow> string \<Rightarrow> bool" where
  "tokens_distinct s instanceID \<longleftrightarrow> list_all (\<lambda>u. distinct (RefreshTokens u)) (users s instanceID)"

section \<open>Concrete inputs\<close>

definition demo_deps :: deps where
  "demo_deps =
     \<lparr>ComparePasswordWithHash = (\<lambda>h p. (h = ''h:'' @ p, None)),
      HashPassword = (\<lambda>p. (''h:'' @ p, None)),
      CheckEmailFormat = (\<lambda>e. CHR ''@'' \<in> set e),
      CheckPasswordFormat = (\<lambda>p. 8 \<le> length p)\<rparr>"

definition home :: profile where
  "home = \<lparr>ProfileID = ''p1'', Nickname = ''a@x.com'', ConsentConfirmedAt = 100, AvatarID = ''default''\<rparr>"

definition alice :: user where
  "alice =
     \<lparr>ID = ''u1'',
      Account = \<lparr>Type = ''email'', AccountID = ''a@x.com'', AccountConfirmedAt = 0,
                 Password = ''h:Str0ngP@ss!'', PreferredLanguage = ''en''\<rparr>,
      Roles = [''PARTICIPANT''],
      Profiles = [home],
      ContactPreferences = \<lparr>SubscribedToNewsletter = False, SendNewsletterTo = []\<rparr>,
      ContactInfos = [],
      RefreshTokens = [],
      Timestamps = \<lparr>CreatedAt = 100, LastLogin = 0, LastTokenRefresh = 0\<rparr>\<rparr>"

definition demo_store :: store where
  "demo_store =
     \<lparr>users = (\<lambda>_. [])(''t1'' := [alice]),
      read_fault = (\<lambda>_. None),
      write_fault = (\<lambda>_. None)\<rparr>"

text \<open>An account that was stored without any profile, beside a regular one.\<close>

definition nobody :: user where
  "nobody = alice\<lparr>ID := ''u2'', Account := (Account alice)\<lparr>AccountID := ''n@x.com''\<rparr>, Profiles := []\<rparr>"

definition bare_store :: store where
  "bare_store = demo_store\<lparr>users := (\<lambda>_. [])(''t1'' := [alice, nobody])\<rparr>"

definition work :: profile where
  "work = \<lparr>ProfileID = ''p2'', Nickname = ''Ann'', ConsentConfirmedAt = 150, AvatarID = ''default''\<rparr>"

text \<open>An account with two profiles, stored beside the two above.\<close>

definition erin :: user where
  "erin = alice\<lparr>ID := ''u6'', Account := (Account alice)\<lparr>AccountID := ''e@x.com''\<rparr>,
     Profiles := [work, home]\<rparr>"

definition family_store :: store where
  "family_store = demo_store\<lparr>users := (\<lambda>_. [])(''t1'' := [alice, nobody, erin])\<rparr>"

definition empty_store :: store where
  "empty_store = \<lparr>users = (\<lambda>_. []), read_fault = (\<lambda>_. None), write_fault = (\<lambda>_. None)\<rparr>"

definition signup_a :: SignupWithEmailMsg where
  "signup_a =
     \<lparr>signup_Email = ''a@x.com'', signup_Password = ''Str0ngP@ss!'', signup_InstanceId = ''t1'',
      signup_PreferredLanguage = ''en'', signup_WantsNewsletter = True\<rparr>"

definition tok1 :: RefreshTokenRequest where
  "tok1 = \<lparr>req_RefreshToken = ''tok1'', req_UserId = ''u1'', req_InstanceId = ''t1''\<rparr>"

definition tok2 :: RefreshTokenRequest where
  "tok2 = \<lparr>req_RefreshToken = ''tok2'', req_UserId = ''u1'', req_InstanceId = ''t1''\<rparr>"

definition session_store :: store where
  "session_store = demo_store\<lparr>users := (\<lambda>_. [])(''t1'' := [alice\<lparr>RefreshTokens := [''tok1'']\<rparr>])\<rparr>"

text \<open>
  Two tenants for the clean-up job, run at time 1000 with a retention of 500 seconds:
  \<open>alice\<close> and \<open>bob\<close> are unconfirmed and old, \<open>carol\<close> is confirmed, \<open>dave\<close> is
  unconfirmed and young. In \<open>stuck_store\<close> the first tenant refuses every write.
\<close>

definition bob :: user where
  "bob = alice\<lparr>ID := ''u3'', Account := (Account alice)\<lparr>AccountID := ''b@x.com''\<rparr>\<rparr>"

definition carol :: user where
  "carol = alice\<lparr>ID := ''u4'',
     Account := (Account alice)\<lparr>AccountID := ''c@x.com'', AccountConfirmedAt := 120\<rparr>\<rparr>"

definition dave :: user where
  "dave = alice\<lparr>ID := ''u5'', Account := (Account alice)\<lparr>AccountID := ''d@x.com''\<rparr>,
     Timestamps := (Timestamps alice)\<lparr>CreatedAt := 900\<rparr>\<rparr>"

definition sweep_store :: store where
  "sweep_store = demo_store\<lparr>users := (\<lambda>_. [])(''t1'' := [alice], ''t2'' := [bob, carol, dave])\<rparr>"

definition stuck_store :: store where
  "stuck_store = sweep_store\<lparr>write_fault := (\<lambda>_. None)(''t1'' := Some ''connection lost'')\<rparr>"

definition timer :: UserManagementTimerService where
  "timer = \<lparr>GetAllInstances = ([\<lparr>InstanceID = ''t1''\<rparr>, \<lparr>InstanceID = ''t2''\<rparr>], None),
            CleanUpTimeThreshold = 500\<rparr>"

section \<open>Facts about the store\<close>

lemmas demo_defs = demo_deps_def demo_store_def alice_def home_def

lemma find_Some_mem: "find P xs = Some x \<Longrightarrow> x \<in> set xs \<and> P x"
  by (induction xs) (auto split: if_splits)

lemma find_None_set: "find P xs = None \<longleftrightarrow> (\<forall>x \<in> set xs. \<not> P x)"
  by (induction xs) auto

lemma GetUserByEmail_Inr:
  "GetUserByEmail s i e = Inr u \<Longrightarrow>
     u \<in> set (users s i) \<and> AccountID (Account u) = e \<and> read_fault s i = None"
  by (auto simp: GetUserByEmail_def split: option.splits dest: find_Some_mem)

lemma GetUserByID_Inr:
  "GetUserByID s i x = Inr u \<Longrightarrow>
     find (\<lambda>v. ID v = x) (users s i) = Some u \<and> u \<in> set (users s i) \<and> ID u = x \<and> read_fault s i = None"
  by (auto simp: GetUserByID_def split: option.splits dest: find_Some_mem)

lemma UpdateLoginTime_ok:
  assumes "u \<in> set (users s i)" "write_fault s i = None"
  shows "fst (UpdateLoginTime s i (ID u) now) = None"
proof -
  from assms(1) have "find (\<lambda>v. ID v = ID u) (users s i) \<noteq> None"
    by (auto simp: find_None_set)
  with assms(2) show ?thesis
    by (auto simp: UpdateLoginTime_def split: option.splits)
qed

lemma UpdateLoginTime_fault:
  "write_fault s i = Some e \<Longrightarrow> UpdateLoginTime s i x now = (Some e, s)"
  by (simp add: UpdateLoginTime_def)

lemma AddUser_Inr:
  "AddUser s i u x now = (Inr y, s') \<Longrightarrow>
     y = x \<and> users s' i = users s i @ [u\<lparr>ID := x, Timestamps := (Timestamps u)\<lparr>CreatedAt := now\<rparr>\<rparr>]"
  by (auto simp: AddUser_def split: option.splits if_splits)

lemma AddUser_ok:
  "write_fault s i = None \<Longrightarrow>
   AccountID (Account u) \<notin> set (map (\<lambda>v. AccountID (Account v)) (users s i)) \<Longrightarrow>
   \<exists>s'. AddUser s i u x now = (Inr x, s')"
  by (simp add: AddUser_def)

lemma FindProfile_Inl:
  "(\<exists>e. FindProfile u pid = Inl e) \<longleftrightarrow> pid \<notin> ProfileID ` set (Profiles u)"
  by (force simp: FindProfile_def find_None_set split: option.splits dest!: find_Some_mem)

lemma map_ProfileToAPI: "map ProfileToAPI ps = ps"
  by (induction ps) (simp_all add: ProfileToAPI_def)

lemma FindProfile_Inr:
  "FindProfile u pid = Inr p \<Longrightarrow> p \<in> set (Profiles u) \<and> ProfileID p = pid"
  by (auto simp: FindProfile_def split: option.splits dest: find_Some_mem)

section \<open>LoginWithEmail: failures\<close>

text \<open>
  C5. An empty login identifier, an empty password, an identifier the store does not
  resolve, and a password that does not match the stored hash all give the same error
  value, \<open>InvalidArgument\<close> with the text ``invalid username and/or password'', and
  leave the store as it was.
\<close>

theorem LoginWithEmail_invalid_credentials:
  fixes r :: LoginWithEmailMsg
  shows
  "(login_Email r = [] \<longrightarrow>
      LoginWithEmail d s now (Some r) = (Err InvalidArgument ''invalid username and/or password'', s)) \<and>
   (login_Password r = [] \<longrightarrow>
      LoginWithEmail d s now (Some r) = (Err InvalidArgument ''invalid username and/or password'', s)) \<and>
   (\<forall>e. GetUserByEmail s (if login_InstanceId r = [] then ''default'' else login_InstanceId r)
           (login_Email r) = Inl e \<longrightarrow>
      LoginWithEmail d s now (Some r) = (Err InvalidArgument ''invalid username and/or password'', s)) \<and>
   (\<forall>u err. GetUserByEmail s (if login_InstanceId r = [] then ''default'' else login_InstanceId r)
           (login_Email r) = Inr u \<and>
         ComparePasswordWithHash d (Password (Account u)) (login_Password r) = (False, err) \<longrightarrow>
      LoginWithEmail d s now (Some r) = (Err InvalidArgument ''invalid username and/or password'', s))"
  by (auto simp: LoginWithEmail_def Let_def)

theorem LoginWithEmail_invalid_credentials_witness:
  "LoginWithEmail demo_deps demo_store 200
     (Some \<lparr>login_Email = '''', login_Password = ''Str0ngP@ss!'', login_InstanceId = ''t1''\<rparr>)
     = (Err InvalidArgument ''invalid username and/or password'', demo_store) \<and>
   LoginWithEmail demo_deps demo_store 200
     (Some \<lparr>login_Email = ''a@x.com'', login_Password = '''', login_InstanceId = ''t1''\<rparr>)
     = (Err InvalidArgument ''invalid username and/or password'', demo_store) \<and>
   GetUserByEmail demo_store ''t1'' ''b@x.com'' = Inl ''no documents in result'' \<and>
   LoginWithEmail demo_deps demo_store 200
     (Some \<lparr>login_Email = ''b@x.com'', login_Password = ''Str0ngP@ss!'', login_InstanceId = ''t1''\<rparr>)
     = (Err InvalidArgument ''invalid username and/or password'', demo_store) \<and>
   GetUserByEmail demo_store ''t1'' ''a@x.com'' = Inr alice \<and>
   ComparePasswordWithHash demo_deps (Password (Account alice)) ''wrong'' = (False, None) \<and>
   LoginWithEmail demo_deps demo_store 200
     (Some \<lparr>login_Email = ''a@x.com'', login_Password = ''wrong'', login_InstanceId = ''t1''\<rparr>)
     = (Err InvalidArgument ''invalid username and/or password'', demo_store)"
proof -
  have g1: "GetUserByEmail demo_store ''t1'' ''b@x.com'' = Inl ''no documents in result''"
    by (simp add: GetUserByEmail_def demo_defs)
  have g2: "GetUserByEmail demo_store ''t1'' ''a@x.com'' = Inr alice"
    by (simp add: GetUserByEmail_def demo_defs)
  have g3: "ComparePasswordWithHash demo_deps (Password (Account alice)) ''wrong'' = (False, None)"
    by (simp add: demo_defs)
  show ?thesis
    using g1 g2 g3
      LoginWithEmail_invalid_credentials [of
        "\<lparr>login_Email = '''', login_Password = ''Str0ngP@ss!'', login_InstanceId = ''t1''\<rparr>"
        demo_deps demo_store 200]
      LoginWithEmail_invalid_credentials [of
        "\<lparr>login_Email = ''a@x.com'', login_Password = '''', login_InstanceId = ''t1''\<rparr>"
        demo_deps demo_store 200]
      LoginWithEmail_invalid_credentials [of
        "\<lparr>login_Email = ''b@x.com'', login_Password = ''Str0ngP@ss!'', login_InstanceId = ''t1''\<rparr>"
        demo_deps demo_store 200]
      LoginWithEmail_invalid_credentials [of
        "\<lparr>login_Email = ''a@x.com'', login_Password = ''wrong'', login_InstanceId = ''t1''\<rparr>"
        demo_deps demo_store 200]
    by simp
qed

text \<open>
  When the password matches and the store then refuses to record the login time, the
  handler answers with the store's text under the code \<open>InvalidArgument\<close>, the code of
  the credential failures.
\<close>

lemma LoginWithEmail_update_failure:
  assumes "login_Email r \<noteq> []" "login_Password r \<noteq> []"
    and "GetUserByEmail s (if login_InstanceId r = [] then ''default'' else login_InstanceId r)
           (login_Email r) = Inr u"
    and "ComparePasswordWithHash d (Password (Account u)) (login_Password r) = (True, None)"
    and "write_fault s (if login_InstanceId r = [] then ''default'' else login_InstanceId r) = Some e"
  shows "LoginWithEmail d s now (Some r) = (Err InvalidArgument e, s)"
  using assms by (auto simp: LoginWithEmail_def Let_def UpdateLoginTime_fault)

text \<open>
  C6. The claim asks for an internal error when the update of the login time fails after
  a successful verification. Here the store answers ``connection lost'' to the write: the
  handler returns code \<open>InvalidArgument\<close>, not \<open>Internal\<close>.
\<close>

theorem LoginWithEmail_store_failure_code:
  "LoginWithEmail demo_deps (demo_store\<lparr>write_fault := (\<lambda>_. Some ''connection lost'')\<rparr>) 200
     (Some \<lparr>login_Email = ''a@x.com'', login_Password = ''Str0ngP@ss!'', login_InstanceId = ''t1''\<rparr>)
   = (Err InvalidArgument ''connection lost'',
      demo_store\<lparr>write_fault := (\<lambda>_. Some ''connection lost'')\<rparr>)"
  by (simp add: LoginWithEmail_def demo_defs GetUserByEmail_def UpdateLoginTime_def)

theorem LoginWithEmail_store_failure_code_witness:
  "fst (LoginWithEmail demo_deps (demo_store\<lparr>write_fault := (\<lambda>_. Some ''connection lost'')\<rparr>) 200
     (Some \<lparr>login_Email = ''a@x.com'', login_Password = ''Str0ngP@ss!'', login_InstanceId = ''t1''\<rparr>))
   \<noteq> Err Internal ''connection lost''"
  using LoginWithEmail_store_failure_code by simp

section \<open>LoginWithEmail: the first profile\<close>

text \<open>
  C10. The response takes the first profile of the resolved account without a guard.
  If the account has a profile, the handler does not panic, whatever else happens; if it
  has none, and the credentials are right and the store records the login time, the handler
  panics: it returns no error value (and no response). Every response the handler returns
  carries the profiles of the account and selects the first of them; and with right
  credentials, a store that records the login time and an account with a profile, the
  handler does return such a response.
\<close>

theorem LoginWithEmail_first_profile:
  fixes r :: LoginWithEmailMsg
  assumes "GetUserByEmail s (if login_InstanceId r = [] then ''default'' else login_InstanceId r)
             (login_Email r) = Inr u"
  shows "(Profiles u \<noteq> [] \<longrightarrow> fst (LoginWithEmail d s now (Some r)) \<noteq> Panic) \<and>
         (Profiles u = [] \<and> login_Email r \<noteq> [] \<and> login_Password r \<noteq> [] \<and>
          ComparePasswordWithHash d (Password (Account u)) (login_Password r) = (True, None) \<and>
          write_fault s (if login_InstanceId r = [] then ''default'' else login_InstanceId r) = None
          \<longrightarrow> fst (LoginWithEmail d s now (Some r)) = Panic) \<and>
         (\<forall>info s'. LoginWithEmail d s now (Some r) = (Ok info, s') \<longrightarrow>
            auth_Profiles info = Profiles u \<and>
            (\<exists>rest. Profiles u = SelectedProfile info # rest) \<and>
            SelectedProfile info = hd (Profiles u) \<and>
            SelectedProfile info = Profiles u ! 0) \<and>
         (Profiles u \<noteq> [] \<and> login_Email r \<noteq> [] \<and> login_Password r \<noteq> [] \<and>
          ComparePasswordWithHash d (Password (Account u)) (login_Password r) = (True, None) \<and>
          write_fault s (if login_InstanceId r = [] then ''default'' else login_InstanceId r) = None
          \<longrightarrow> (\<exists>info s'. LoginWithEmail d s now (Some r) = (Ok info, s') \<and>
                 SelectedProfile info = hd (Profiles u)))"
proof (intro conjI impI allI)
  assume "Profiles u \<noteq> []"
  then show "fst (LoginWithEmail d s now (Some r)) \<noteq> Panic"
    using assms
    by (auto simp: LoginWithEmail_def Let_def ToAPI_def split: prod.splits option.splits list.splits)
next
  assume a: "Profiles u = [] \<and> login_Email r \<noteq> [] \<and> login_Password r \<noteq> [] \<and>
          ComparePasswordWithHash d (Password (Account u)) (login_Password r) = (True, None) \<and>
          write_fault s (if login_InstanceId r = [] then ''default'' else login_InstanceId r) = None"
  let ?i = "if login_InstanceId r = [] then ''default'' else login_InstanceId r"
  from assms have "u \<in> set (users s ?i)" by (auto dest: GetUserByEmail_Inr)
  with a have "fst (UpdateLoginTime s ?i (ID u) now) = None"
    by (intro UpdateLoginTime_ok) auto
  then obtain s' where "UpdateLoginTime s ?i (ID u) now = (None, s')"
    by (cases "UpdateLoginTime s ?i (ID u) now") auto
  with a assms show "fst (LoginWithEmail d s now (Some r)) = Panic"
    by (auto simp: LoginWithEmail_def Let_def ToAPI_def)
next
  fix info s'
  assume ok: "LoginWithEmail d s now (Some r) = (Ok info, s')"
  with assms have sel: "auth_Profiles info = Profiles u \<and>
      (\<exists>rest. Profiles u = SelectedProfile info # rest)"
    by (auto simp: LoginWithEmail_def Let_def ToAPI_def map_ProfileToAPI
        split: if_splits prod.splits option.splits list.splits)
  then show "auth_Profiles info = Profiles u" "\<exists>rest. Profiles u = SelectedProfile info # rest"
    by simp_all
  from sel show "SelectedProfile info = hd (Profiles u)" "SelectedProfile info = Profiles u ! 0"
    by auto
next
  assume a: "Profiles u \<noteq> [] \<and> login_Email r \<noteq> [] \<and> login_Password r \<noteq> [] \<and>
          ComparePasswordWithHash d (Password (Account u)) (login_Password r) = (True, None) \<and>
          write_fault s (if login_InstanceId r = [] then ''default'' else login_InstanceId r) = None"
  let ?i = "if login_InstanceId r = [] then ''default'' else login_InstanceId r"
  from assms have "u \<in> set (users s ?i)" by (auto dest: GetUserByEmail_Inr)
  with a have "fst (UpdateLoginTime s ?i (ID u) now) = None"
    by (intro UpdateLoginTime_ok) auto
  then obtain s' where upd: "UpdateLoginTime s ?i (ID u) now = (None, s')"
    by (cases "UpdateLoginTime s ?i (ID u) now") auto
  from a obtain p ps where ps: "Profiles u = p # ps"
    by (cases "Profiles u") auto
  from a assms upd ps show "\<exists>info s'. LoginWithEmail d s now (Some r) = (Ok info, s') \<and>
                 SelectedProfile info = hd (Profiles u)"
    by (auto simp: LoginWithEmail_def Let_def ToAPI_def ProfileToAPI_def)
qed

theorem LoginWithEmail_first_profile_witness:
  "GetUserByEmail family_store ''t1'' ''e@x.com'' = Inr erin \<and> Profiles erin = [work, home] \<and>
   fst (LoginWithEmail demo_deps family_store 200
     (Some \<lparr>login_Email = ''e@x.com'', login_Password = ''Str0ngP@ss!'', login_InstanceId = ''t1''\<rparr>))
     \<noteq> Panic \<and>
   (\<exists>info s'. LoginWithEmail demo_deps family_store 200
     (Some \<lparr>login_Email = ''e@x.com'', login_Password = ''Str0ngP@ss!'', login_InstanceId = ''t1''\<rparr>)
     = (Ok info, s') \<and> SelectedProfile info = work \<and> auth_Profiles info = [work, home]) \<and>
   GetUserByEmail family_store ''t1'' ''n@x.com'' = Inr nobody \<and> Profiles nobody = [] \<and>
   fst (LoginWithEmail demo_deps family_store 200
     (Some \<lparr>login_Email = ''n@x.com'', login_Password = ''Str0ngP@ss!'', login_InstanceId = ''t1''\<rparr>))
     = Panic"
proof -
  let ?re = "\<lparr>login_Email = ''e@x.com'', login_Password = ''Str0ngP@ss!'', login_InstanceId = ''t1''\<rparr>"
  let ?rn = "\<lparr>login_Email = ''n@x.com'', login_Password = ''Str0ngP@ss!'', login_InstanceId = ''t1''\<rparr>"
  have g1: "GetUserByEmail family_store ''t1'' ''e@x.com'' = Inr erin"
    by (simp add: GetUserByEmail_def family_store_def erin_def nobody_def demo_defs)
  have g2: "GetUserByEmail family_store ''t1'' ''n@x.com'' = Inr nobody"
    by (simp add: GetUserByEmail_def family_store_def erin_def nobody_def demo_defs)
  have p1: "Profiles erin = [work, home]" by (simp add: erin_def)
  have p2: "Profiles nobody = []" by (simp add: nobody_def)
  have c1: "ComparePasswordWithHash demo_deps (Password (Account erin)) ''Str0ngP@ss!'' = (True, None)"
    by (simp add: erin_def demo_defs)
  have c2: "ComparePasswordWithHash demo_deps (Password (Account nobody)) ''Str0ngP@ss!'' = (True, None)"
    by (simp add: nobody_def demo_defs)
  have w: "write_fault family_store ''t1'' = None"
    by (simp add: family_store_def demo_defs)
  have g1': "GetUserByEmail family_store
      (if login_InstanceId ?re = [] then ''default'' else login_InstanceId ?re) (login_Email ?re) = Inr erin"
    using g1 by simp
  have g2': "GetUserByEmail family_store
      (if login_InstanceId ?rn = [] then ''default'' else login_InstanceId ?rn) (login_Email ?rn) = Inr nobody"
    using g2 by simp
  note E = LoginWithEmail_first_profile [where r = ?re and d = demo_deps and now = 200, OF g1']
  note N = LoginWithEmail_first_profile [where r = ?rn and d = demo_deps and now = 200, OF g2']
  from E p1 have a: "fst (LoginWithEmail demo_deps family_store 200 (Some ?re)) \<noteq> Panic"
    by simp
  from E p1 c1 w obtain info s' where
    ok: "LoginWithEmail demo_deps family_store 200 (Some ?re) = (Ok info, s')"
    and sel: "SelectedProfile info = hd (Profiles erin)"
    by auto
  from E ok have "auth_Profiles info = Profiles erin" by blast
  with ok sel p1 have b: "\<exists>info s'. LoginWithEmail demo_deps family_store 200 (Some ?re)
     = (Ok info, s') \<and> SelectedProfile info = work \<and> auth_Profiles info = [work, home]"
    by auto
  from N p2 c2 w have c: "fst (LoginWithEmail demo_deps family_store 200 (Some ?rn)) = Panic"
    by simp
  from g1 p1 a b g2 p2 c show ?thesis by blast
qed

section \<open>SwitchProfile\<close>

lemma SwitchProfile_store: "snd (SwitchProfile s req) = s"
  by (auto simp: SwitchProfile_def Let_def split: option.splits sum.splits)

text \<open>
  C7. For a request that names a user the store resolves: the handler fails with
  ``profile not found'' exactly when the requested id is not the id of a profile of the
  account; otherwise it succeeds and the selected profile is the (first) profile of the
  account with that id. Whatever the request, the store is left as it was.
\<close>

theorem SwitchProfile_profile_not_found:
  assumes "GetUserByID s (token_InstanceId tok) (token_Id tok) = Inr u"
    and "\<not> IsTokenEmpty (Some tok)"
  shows
    "(fst (SwitchProfile s (Some \<lparr>Token = Some tok, Profile = Some prof\<rparr>))
        = Err Internal ''profile not found''
      \<longleftrightarrow> ProfileID prof \<notin> ProfileID ` set (Profiles u)) \<and>
     (ProfileID prof \<in> ProfileID ` set (Profiles u) \<longrightarrow>
        (\<exists>info. fst (SwitchProfile s (Some \<lparr>Token = Some tok, Profile = Some prof\<rparr>)) = Ok info \<and>
           SelectedProfile info \<in> set (Profiles u) \<and>
           ProfileID (SelectedProfile info) = ProfileID prof \<and>
           find (\<lambda>p. ProfileID p = ProfileID prof) (Profiles u) = Some (SelectedProfile info))) \<and>
     snd (SwitchProfile s (Some \<lparr>Token = Some tok, Profile = Some prof\<rparr>)) = s \<and>
     snd (SwitchProfile s req) = s"
proof (intro conjI)
  let ?req = "Some \<lparr>Token = Some tok, Profile = Some prof\<rparr>"
  have run: "fst (SwitchProfile s ?req) =
      (case FindProfile u (ProfileID prof) of
         Inl e \<Rightarrow> Err Internal ''profile not found''
       | Inr p \<Rightarrow> Ok \<lparr>UserId = ID u, auth_Roles = Roles u, InstanceId = token_InstanceId tok,
            AccountId = AccountID (Account u),
            AccountConfirmed = (AccountConfirmedAt (Account u) > 0),
            auth_Profiles = Profiles u, SelectedProfile = p,
            auth_PreferredLanguage = PreferredLanguage (Account u)\<rparr>)"
    using assms
    by (simp add: SwitchProfile_def ToAPI_def map_ProfileToAPI ProfileToAPI_def Let_def split: sum.splits)
  show "fst (SwitchProfile s ?req) = Err Internal ''profile not found''
      \<longleftrightarrow> ProfileID prof \<notin> ProfileID ` set (Profiles u)"
    using FindProfile_Inl [of u "ProfileID prof"]
    by (auto simp: run split: sum.splits)
  show "ProfileID prof \<in> ProfileID ` set (Profiles u) \<longrightarrow>
        (\<exists>info. fst (SwitchProfile s ?req) = Ok info \<and>
           SelectedProfile info \<in> set (Profiles u) \<and>
           ProfileID (SelectedProfile info) = ProfileID prof \<and>
           find (\<lambda>p. ProfileID p = ProfileID prof) (Profiles u) = Some (SelectedProfile info))"
  proof
    assume "ProfileID prof \<in> ProfileID ` set (Profiles u)"
    then obtain p where p: "FindProfile u (ProfileID prof) = Inr p"
      using FindProfile_Inl [of u "ProfileID prof"] by (cases "FindProfile u (ProfileID prof)") auto
    then have "find (\<lambda>p. ProfileID p = ProfileID prof) (Profiles u) = Some p"
      by (auto simp: FindProfile_def split: option.splits)
    with p FindProfile_Inr [OF p] show "\<exists>info. fst (SwitchProfile s ?req) = Ok info \<and>
           SelectedProfile info \<in> set (Profiles u) \<and>
           ProfileID (SelectedProfile info) = ProfileID prof \<and>
           find (\<lambda>p. ProfileID p = ProfileID prof) (Profiles u) = Some (SelectedProfile info)"
      by (simp add: run)
  qed
  show "snd (SwitchProfile s ?req) = s" by (rule SwitchProfile_store)
  show "snd (SwitchProfile s req) = s" by (rule SwitchProfile_store)
qed

theorem SwitchProfile_profile_not_found_witness:
  "GetUserByID bare_store ''t1'' ''u1'' = Inr alice \<and>
   fst (SwitchProfile bare_store (Some \<lparr>Token = Some \<lparr>token_Id = ''u1'', token_InstanceId = ''t1''\<rparr>,
          Profile = Some work\<rparr>)) = Err Internal ''profile not found'' \<and>
   (\<exists>info. fst (SwitchProfile bare_store (Some \<lparr>Token = Some \<lparr>token_Id = ''u1'', token_InstanceId = ''t1''\<rparr>,
          Profile = Some home\<rparr>)) = Ok info \<and> SelectedProfile info = home) \<and>
   snd (SwitchProfile bare_store (Some \<lparr>Token = Some \<lparr>token_Id = ''u1'', token_InstanceId = ''t1''\<rparr>,
          Profile = Some home\<rparr>)) = bare_store"
proof -
  have g: "GetUserByID bare_store ''t1'' ''u1'' = Inr alice"
    by (simp add: GetUserByID_def bare_store_def nobody_def demo_defs)
  have t: "\<not> IsTokenEmpty (Some \<lparr>token_Id = ''u1'', token_InstanceId = ''t1''\<rparr>)"
    by (simp add: IsTokenEmpty_def)
  have ps: "ProfileID ` set (Profiles alice) = {''p1''}" "ProfileID work = ''p2''" "ProfileID home = ''p1''"
    "find (\<lambda>p. ProfileID p = ''p1'') (Profiles alice) = Some home"
    by (simp_all add: work_def demo_defs)
  let ?tok = "\<lparr>token_Id = ''u1'', token_InstanceId = ''t1''\<rparr>"
  have g': "GetUserByID bare_store (token_InstanceId ?tok) (token_Id ?tok) = Inr alice"
    using g by simp
  note A = SwitchProfile_profile_not_found [where tok = ?tok and prof = work, OF g' t]
  note B = SwitchProfile_profile_not_found [where tok = ?tok and prof = home and req = None, OF g' t]
  from A have a: "fst (SwitchProfile bare_store (Some \<lparr>Token = Some ?tok, Profile = Some work\<rparr>))
      = Err Internal ''profile not found''"
    by (simp add: ps)
  from B have "\<exists>info. fst (SwitchProfile bare_store (Some \<lparr>Token = Some ?tok, Profile = Some home\<rparr>))
      = Ok info \<and> find (\<lambda>p. ProfileID p = ''p1'') (Profiles alice) = Some (SelectedProfile info)"
    by (auto simp: ps(1,3))
  then have b: "\<exists>info. fst (SwitchProfile bare_store (Some \<lparr>Token = Some ?tok, Profile = Some home\<rparr>))
      = Ok info \<and> SelectedProfile info = home"
    by (auto simp: ps(4))
  from B have c: "snd (SwitchProfile bare_store (Some \<lparr>Token = Some ?tok, Profile = Some home\<rparr>))
      = bare_store"
    by simp
  from g a b c show ?thesis by simp
qed

section \<open>The account identifier in the session information\<close>

text \<open>
  LoginWithEmail shows the login identifier only to accounts whose roles are neither empty
  nor the single role \<open>PARTICIPANT\<close>.
\<close>

lemma LoginWithEmail_AccountId:
  assumes "LoginWithEmail d s now (Some r) = (Ok info, s')"
    and "GetUserByEmail s (if login_InstanceId r = [] then ''default'' else login_InstanceId r)
           (login_Email r) = Inr u"
  shows "AccountId info =
           (if Roles u = [] \<or> Roles u = [''PARTICIPANT''] then [] else AccountID (Account u))"
  using assms
  by (cases "Roles u"; cases "tl (Roles u)")
     (auto simp: LoginWithEmail_def Let_def split: if_splits prod.splits option.splits list.splits)

text \<open>
  C3. SwitchProfile applies no such test: for the account of a plain participant
  (roles \<open>[PARTICIPANT]\<close>) it returns the login identifier, where the claim asks for an
  empty identifier.
\<close>

theorem SwitchProfile_AccountId_participant:
  "fst (SwitchProfile demo_store
         (Some \<lparr>Token = Some \<lparr>token_Id = ''u1'', token_InstanceId = ''t1''\<rparr>, Profile = Some home\<rparr>))
   = Ok \<lparr>UserId = ''u1'', auth_Roles = [''PARTICIPANT''], InstanceId = ''t1'',
         AccountId = ''a@x.com'', AccountConfirmed = False, auth_Profiles = [home],
         SelectedProfile = home, auth_PreferredLanguage = ''en''\<rparr>"
  by (simp add: SwitchProfile_def IsTokenEmpty_def GetUserByID_def FindProfile_def ToAPI_def
      ProfileToAPI_def demo_defs)

theorem SwitchProfile_AccountId_participant_witness:
  "\<exists>info. fst (SwitchProfile demo_store
         (Some \<lparr>Token = Some \<lparr>token_Id = ''u1'', token_InstanceId = ''t1''\<rparr>, Profile = Some home\<rparr>))
      = Ok info \<and> auth_Roles info = [''PARTICIPANT''] \<and> AccountId info \<noteq> []"
  using SwitchProfile_AccountId_participant by simp

section \<open>SignupWithEmail\<close>

text \<open>
  C4. A signup with a well-formed address and a strong enough password succeeds when
  the hashing works and the store accepts the new account. Every successful signup passed
  both checks and returns: not confirmed, the roles \<open>[PARTICIPANT]\<close>, exactly one profile,
  whose nickname is the login identifier and which is the selected profile; the record
  added to the tenant's accounts has confirmation time 0.
\<close>

theorem SignupWithEmail_new_account:
  fixes r :: SignupWithEmailMsg
  defines "inst \<equiv> (if signup_InstanceId r = [] then ''default'' else signup_InstanceId r)"
  shows
    "(CheckEmailFormat d (signup_Email r) \<and> CheckPasswordFormat d (signup_Password r) \<and>
      snd (HashPassword d (signup_Password r)) = None \<and> write_fault s inst = None \<and>
      signup_Email r \<notin> set (map (\<lambda>v. AccountID (Account v)) (users s inst))
      \<longrightarrow> (\<exists>info s'. SignupWithEmail d s now profile_oid contact_oid user_oid (Some r) = (Ok info, s'))) \<and>
     (\<forall>info s'. SignupWithEmail d s now profile_oid contact_oid user_oid (Some r) = (Ok info, s') \<longrightarrow>
        CheckEmailFormat d (signup_Email r) \<and> CheckPasswordFormat d (signup_Password r) \<and>
        AccountConfirmed info = False \<and>
        auth_Roles info = [''PARTICIPANT''] \<and>
        auth_Profiles info = [SelectedProfile info] \<and>
        Nickname (SelectedProfile info) = signup_Email r \<and>
        (\<exists>u. users s' inst = users s inst @ [u] \<and>
             ID u = UserId info \<and>
             AccountID (Account u) = signup_Email r \<and>
             AccountConfirmedAt (Account u) = 0 \<and>
             Roles u = [''PARTICIPANT''] \<and>
             Profiles u = [SelectedProfile info]))"
proof (intro conjI allI impI)
  assume a: "CheckEmailFormat d (signup_Email r) \<and> CheckPasswordFormat d (signup_Password r) \<and>
      snd (HashPassword d (signup_Password r)) = None \<and> write_fault s inst = None \<and>
      signup_Email r \<notin> set (map (\<lambda>v. AccountID (Account v)) (users s inst))"
  then obtain pw where pw: "HashPassword d (signup_Password r) = (pw, None)"
    by (cases "HashPassword d (signup_Password r)") auto
  show "\<exists>info s'. SignupWithEmail d s now profile_oid contact_oid user_oid (Some r) = (Ok info, s')"
    using a pw unfolding inst_def
    by (simp add: SignupWithEmail_def AddNewEmail_def AddUser_def ToAPI_def ProfileToAPI_def Let_def)
next
  fix info s'
  assume ok: "SignupWithEmail d s now profile_oid contact_oid user_oid (Some r) = (Ok info, s')"
  then show "CheckEmailFormat d (signup_Email r)" "CheckPasswordFormat d (signup_Password r)"
    by (auto simp: SignupWithEmail_def split: if_splits)
  from ok show "AccountConfirmed info = False" "auth_Roles info = [''PARTICIPANT'']"
    "auth_Profiles info = [SelectedProfile info]" "Nickname (SelectedProfile info) = signup_Email r"
    unfolding SignupWithEmail_def Let_def AddNewEmail_def ToAPI_def
    by (auto simp: ProfileToAPI_def split: if_splits prod.splits option.splits sum.splits)
  from ok show "\<exists>u. users s' inst = users s inst @ [u] \<and>
             ID u = UserId info \<and>
             AccountID (Account u) = signup_Email r \<and>
             AccountConfirmedAt (Account u) = 0 \<and>
             Roles u = [''PARTICIPANT''] \<and>
             Profiles u = [SelectedProfile info]"
    unfolding SignupWithEmail_def Let_def AddNewEmail_def ToAPI_def inst_def
    by (auto simp: ProfileToAPI_def split: if_splits prod.splits option.splits sum.splits
        dest!: AddUser_Inr)
qed

theorem SignupWithEmail_new_account_witness:
  "CheckEmailFormat demo_deps (signup_Email signup_a) \<and>
   CheckPasswordFormat demo_deps (signup_Password signup_a) \<and>
   (\<exists>info s'. SignupWithEmail demo_deps empty_store 100 ''p1'' ''c1'' ''u1'' (Some signup_a) = (Ok info, s') \<and>
      AccountConfirmed info = False \<and> auth_Roles info = [''PARTICIPANT''] \<and>
      auth_Profiles info = [SelectedProfile info] \<and>
      Nickname (SelectedProfile info) = ''a@x.com'' \<and>
      (\<exists>u. users s' ''t1'' = [u] \<and> ID u = UserId info \<and> AccountConfirmedAt (Account u) = 0))"
proof -
  note T = SignupWithEmail_new_account [where d = demo_deps and s = empty_store and r = signup_a
      and now = 100 and profile_oid = "''p1''" and contact_oid = "''c1''" and user_oid = "''u1''"]
  have pre: "CheckEmailFormat demo_deps (signup_Email signup_a)"
    "CheckPasswordFormat demo_deps (signup_Password signup_a)"
    "snd (HashPassword demo_deps (signup_Password signup_a)) = None"
    "write_fault empty_store ''t1'' = None"
    "users empty_store ''t1'' = []"
    "signup_InstanceId signup_a = ''t1''" "signup_Email signup_a = ''a@x.com''"
    by (simp_all add: demo_deps_def signup_a_def empty_store_def)
  from T pre obtain info s' where
    ok: "SignupWithEmail demo_deps empty_store 100 ''p1'' ''c1'' ''u1'' (Some signup_a) = (Ok info, s')"
    by auto
  with T pre have "AccountConfirmed info = False \<and> auth_Roles info = [''PARTICIPANT''] \<and>
      auth_Profiles info = [SelectedProfile info] \<and>
      Nickname (SelectedProfile info) = ''a@x.com'' \<and>
      (\<exists>u. users s' ''t1'' = [u] \<and> ID u = UserId info \<and> AccountConfirmedAt (Account u) = 0)"
    by auto
  with ok pre show ?thesis by blast
qed

section \<open>Refresh tokens\<close>

lemma find_replace_user:
  "find (\<lambda>v. ID v = ID u) us \<noteq> None \<Longrightarrow> find (\<lambda>v. ID v = ID u) (replace_user u us) = Some u"
  by (induction us) (auto simp: replace_user_def)

lemma UpdateUser_Inr:
  assumes "UpdateUser s i u = (Inr u', s')"
  shows "u' = u \<and> s' = s\<lparr>users := (users s)(i := replace_user u (users s i))\<rparr> \<and>
         write_fault s i = None"
  using assms by (auto simp: UpdateUser_def split: option.splits)

lemma UpdateUser_Inl: "UpdateUser s i u = (Inl e, s') \<Longrightarrow> s' = s"
  by (auto simp: UpdateUser_def split: option.splits)

lemma UpdateUser_resolved:
  assumes "GetUserByID s i x = Inr u0" "ID u = x"
  shows "UpdateUser s i u =
     (case write_fault s i of
        Some e \<Rightarrow> (Inl e, s)
      | None \<Rightarrow> (Inr u, s\<lparr>users := (users s)(i := replace_user u (users s i))\<rparr>))"
  using GetUserByID_Inr [OF assms(1)] assms(2)
  by (auto simp: UpdateUser_def split: option.splits)

lemma GetUserByID_after_replace:
  assumes "GetUserByID s i x = Inr u0" "ID u = x"
  shows "GetUserByID (s\<lparr>users := (users s)(i := replace_user u (users s i))\<rparr>) i x = Inr u"
proof -
  from GetUserByID_Inr [OF assms(1)] assms(2)
  have "find (\<lambda>v. ID v = ID u) (users s i) \<noteq> None" "read_fault s i = None" by auto
  then show ?thesis
    using find_replace_user [of u "users s i"] assms(2)
    by (simp add: GetUserByID_def)
qed

lemma list_all_replace_user:
  "list_all P us \<Longrightarrow> P u \<Longrightarrow> list_all P (replace_user u us)"
  by (induction us) (auto simp: replace_user_def)

lemma AddRefreshToken_simps [simp]:
  "ID (AddRefreshToken u t) = ID u"
  "set (RefreshTokens (AddRefreshToken u t)) = insert t (set (RefreshTokens u))"
  "distinct (RefreshTokens u) \<Longrightarrow> distinct (RefreshTokens (AddRefreshToken u t))"
  by (auto simp: AddRefreshToken_def)

lemma RemoveRefreshToken_Inr:
  "RemoveRefreshToken u t = Inr u' \<Longrightarrow>
     t \<in> set (RefreshTokens u) \<and> ID u' = ID u \<and> RefreshTokens u' = removeAll t (RefreshTokens u)"
  by (auto simp: RemoveRefreshToken_def split: if_splits)

lemma RemoveRefreshToken_Inl:
  "(\<exists>e. RemoveRefreshToken u t = Inl e) \<longleftrightarrow> t \<notin> set (RefreshTokens u)"
  by (auto simp: RemoveRefreshToken_def)

text \<open>What the two handlers do for a well-formed request whose user the store resolves.\<close>

lemma TokenRefreshed_resolved:
  assumes "req_RefreshToken r \<noteq> []" "req_UserId r \<noteq> []" "req_InstanceId r \<noteq> []"
    and "GetUserByID s (req_InstanceId r) (req_UserId r) = Inr u"
  shows "TokenRefreshed s now (Some r) =
     (let u2 = (AddRefreshToken u (req_RefreshToken r))
                 \<lparr>Timestamps := (Timestamps (AddRefreshToken u (req_RefreshToken r)))
                    \<lparr>LastTokenRefresh := now\<rparr>\<rparr>
      in case write_fault s (req_InstanceId r) of
           Some e \<Rightarrow> (Err Internal e, s)
         | None \<Rightarrow>
             (Ok \<lparr>Status = NORMAL, Msg = ''token refresh time updated''\<rparr>,
              s\<lparr>users := (users s)(req_InstanceId r := replace_user u2 (users s (req_InstanceId r)))\<rparr>))"
proof -
  have "ID ((AddRefreshToken u (req_RefreshToken r))
                 \<lparr>Timestamps := (Timestamps (AddRefreshToken u (req_RefreshToken r)))
                    \<lparr>LastTokenRefresh := now\<rparr>\<rparr>) = req_UserId r"
    using GetUserByID_Inr [OF assms(4)] by simp
  from UpdateUser_resolved [OF assms(4) this] assms show ?thesis
    by (simp add: TokenRefreshed_def Let_def split: option.splits)
qed

lemma CheckRefreshToken_resolved:
  assumes "req_RefreshToken r \<noteq> []" "req_UserId r \<noteq> []" "req_InstanceId r \<noteq> []"
    and "GetUserByID s (req_InstanceId r) (req_UserId r) = Inr u"
  shows "CheckRefreshToken s now (Some r) =
     (if req_RefreshToken r \<notin> set (RefreshTokens u) then (Err Internal ''token not found'', s)
      else
        let u2 = u\<lparr>RefreshTokens := removeAll (req_RefreshToken r) (RefreshTokens u),
                   Timestamps := (Timestamps u)\<lparr>LastTokenRefresh := now\<rparr>\<rparr>
        in case write_fault s (req_InstanceId r) of
             Some e \<Rightarrow> (Err Internal e, s)
           | None \<Rightarrow>
               (Ok \<lparr>Status = NORMAL, Msg = ''refresh token removed''\<rparr>,
                s\<lparr>users := (users s)(req_InstanceId r := replace_user u2 (users s (req_InstanceId r)))\<rparr>))"
proof (cases "req_RefreshToken r \<in> set (RefreshTokens u)")
  case False
  with assms show ?thesis
    by (simp add: CheckRefreshToken_def RemoveRefreshToken_def)
next
  case True
  let ?u2 = "u\<lparr>RefreshTokens := removeAll (req_RefreshToken r) (RefreshTokens u),
                   Timestamps := (Timestamps u)\<lparr>LastTokenRefresh := now\<rparr>\<rparr>"
  have "ID ?u2 = req_UserId r"
    using GetUserByID_Inr [OF assms(4)] by simp
  from UpdateUser_resolved [OF assms(4) this] assms True show ?thesis
    by (simp add: CheckRefreshToken_def RemoveRefreshToken_def Let_def split: option.splits)
qed

lemmas token_handler_defs =
  TokenRefreshed_def CheckRefreshToken_def GetUserByID_def UpdateUser_def AddRefreshToken_def
  RemoveRefreshToken_def replace_user_def Let_def

subsection \<open>Issuing\<close>

lemma TokenRefreshed_Ok:
  assumes "TokenRefreshed s now (Some r) = (Ok st, s1)"
  shows "req_RefreshToken r \<noteq> [] \<and> req_UserId r \<noteq> [] \<and> req_InstanceId r \<noteq> [] \<and>
         (\<exists>u. GetUserByID s (req_InstanceId r) (req_UserId r) = Inr u) \<and>
         write_fault s (req_InstanceId r) = None"
  using assms
  by (auto simp: TokenRefreshed_def Let_def UpdateUser_def
      split: if_splits sum.splits option.splits prod.splits)

lemma tokens_distinct_replace:
  assumes "tokens_distinct s i" "distinct (RefreshTokens u)"
  shows "tokens_distinct (s\<lparr>users := (users s)(j := replace_user u (users s j))\<rparr>) i"
  using assms by (auto simp: tokens_distinct_def intro: list_all_replace_user)

lemma tokens_distinct_resolved:
  "tokens_distinct s i \<Longrightarrow> GetUserByID s i x = Inr u \<Longrightarrow> distinct (RefreshTokens u)"
  by (auto simp: tokens_distinct_def list_all_iff dest!: GetUserByID_Inr)

lemma TokenRefreshed_tokens_distinct:
  assumes "tokens_distinct s i"
  shows "tokens_distinct (snd (TokenRefreshed s now req)) i"
proof (cases req)
  case None
  with assms show ?thesis by (simp add: TokenRefreshed_def)
next
  case (Some r)
  show ?thesis
  proof (cases "req_RefreshToken r \<noteq> [] \<and> req_UserId r \<noteq> [] \<and> req_InstanceId r \<noteq> []")
    case False
    with assms Some show ?thesis by (auto simp: TokenRefreshed_def)
  next
    case wf: True
    show ?thesis
    proof (cases "GetUserByID s (req_InstanceId r) (req_UserId r)")
      case (Inl e)
      with assms Some wf show ?thesis by (simp add: TokenRefreshed_def)
    next
      case (Inr u)
      have d: "i = req_InstanceId r \<Longrightarrow> distinct (RefreshTokens u)"
        using assms Inr by (auto dest: tokens_distinct_resolved)
      show ?thesis
      proof (cases "i = req_InstanceId r")
        case True
        with d assms wf Some Inr show ?thesis
          by (auto simp: TokenRefreshed_resolved Let_def split: option.splits
              intro!: tokens_distinct_replace)
      next
        case False
        with assms wf Some Inr show ?thesis
          by (auto simp: TokenRefreshed_resolved Let_def tokens_distinct_def split: option.splits)
      qed
    qed
  qed
qed

lemma CheckRefreshToken_tokens_distinct:
  assumes "tokens_distinct s i"
  shows "tokens_distinct (snd (CheckRefreshToken s now req)) i"
proof (cases req)
  case None
  with assms show ?thesis by (simp add: CheckRefreshToken_def)
next
  case (Some r)
  show ?thesis
  proof (cases "req_RefreshToken r \<noteq> [] \<and> req_UserId r \<noteq> [] \<and> req_InstanceId r \<noteq> []")
    case False
    with assms Some show ?thesis by (auto simp: CheckRefreshToken_def)
  next
    case wf: True
    show ?thesis
    proof (cases "GetUserByID s (req_InstanceId r) (req_UserId r)")
      case (Inl e)
      with assms Some wf show ?thesis by (simp add: CheckRefreshToken_def)
    next
      case (Inr u)
      have d: "i = req_InstanceId r \<Longrightarrow> distinct (RefreshTokens u)"
        using assms Inr by (auto dest: tokens_distinct_resolved)
      show ?thesis
      proof (cases "i = req_InstanceId r")
        case True
        with d assms wf Some Inr show ?thesis
          by (auto simp: CheckRefreshToken_resolved Let_def distinct_removeAll split: option.splits
              intro!: tokens_distinct_replace)
      next
        case False
        with assms wf Some Inr show ?thesis
          by (auto simp: CheckRefreshToken_resolved Let_def tokens_distinct_def split: option.splits)
      qed
    qed
  qed
qed

lemma token_ops_tokens_distinct:
  "tokens_distinct s i \<Longrightarrow> tokens_distinct (token_ops s ops) i"
proof (induction ops arbitrary: s)
  case Nil
  then show ?case by simp
next
  case (Cons op ops)
  then show ?case
    by (cases op) (simp_all add: TokenRefreshed_tokens_distinct CheckRefreshToken_tokens_distinct)
qed

lemma distinct_count_list:
  "distinct xs \<Longrightarrow> count_list xs x = (if x \<in> set xs then 1 else 0)"
  by (induction xs) auto

lemma TokenRefreshed_twice:
  assumes inv: "tokens_distinct s (req_InstanceId r)"
    and one: "TokenRefreshed s now (Some r) = (Ok st, s1)"
    and two: "TokenRefreshed s1 now' (Some r) = (Ok st', s2)"
  shows "\<exists>u. GetUserByID s2 (req_InstanceId r) (req_UserId r) = Inr u \<and>
             count_list (RefreshTokens u) (req_RefreshToken r) = 1"
proof -
  let ?i = "req_InstanceId r" and ?x = "req_UserId r" and ?t = "req_RefreshToken r"
  from TokenRefreshed_Ok [OF one] obtain u0 where
    wf: "?t \<noteq> []" "?x \<noteq> []" "?i \<noteq> []" and u0: "GetUserByID s ?i ?x = Inr u0"
    and w: "write_fault s ?i = None" by blast
  define u1 where "u1 = (AddRefreshToken u0 ?t)\<lparr>Timestamps := (Timestamps (AddRefreshToken u0 ?t))
                    \<lparr>LastTokenRefresh := now\<rparr>\<rparr>"
  have id1: "ID u1 = ?x" using GetUserByID_Inr [OF u0] by (simp add: u1_def)
  have s1: "s1 = s\<lparr>users := (users s)(?i := replace_user u1 (users s ?i))\<rparr>"
    using one w by (simp add: TokenRefreshed_resolved [OF wf u0] Let_def u1_def)
  have g1: "GetUserByID s1 ?i ?x = Inr u1"
    unfolding s1 by (rule GetUserByID_after_replace [OF u0 id1])
  have d1: "distinct (RefreshTokens u1)" "?t \<in> set (RefreshTokens u1)"
    using tokens_distinct_resolved [OF inv u0] by (simp_all add: u1_def)
  have w1: "write_fault s1 ?i = None" using w by (simp add: s1)
  define u2 where "u2 = (AddRefreshToken u1 ?t)\<lparr>Timestamps := (Timestamps (AddRefreshToken u1 ?t))
                    \<lparr>LastTokenRefresh := now'\<rparr>\<rparr>"
  have id2: "ID u2 = ?x" using id1 by (simp add: u2_def)
  have s2: "s2 = s1\<lparr>users := (users s1)(?i := replace_user u2 (users s1 ?i))\<rparr>"
    using two w1 by (simp add: TokenRefreshed_resolved [OF wf g1] Let_def u2_def)
  have g2: "GetUserByID s2 ?i ?x = Inr u2"
    unfolding s2 by (rule GetUserByID_after_replace [OF g1 id2])
  have "RefreshTokens u2 = RefreshTokens u1"
    using d1(2) by (simp add: u2_def AddRefreshToken_def)
  with d1 have "count_list (RefreshTokens u2) ?t = 1"
    by (simp add: distinct_count_list)
  with g2 show ?thesis by blast
qed

text \<open>
  C1. If no account of the tenant holds a token twice, then after two successful calls
  of TokenRefreshed with the same request the account holds the token exactly once; and
  any sequence of issue and revoke requests keeps every tenant free of duplicates.
\<close>

theorem TokenRefreshed_no_duplicates:
  "(tokens_distinct s (req_InstanceId r) \<and>
    TokenRefreshed s now (Some r) = (Ok st, s1) \<and>
    TokenRefreshed s1 now' (Some r) = (Ok st', s2) \<longrightarrow>
      (\<exists>u. GetUserByID s2 (req_InstanceId r) (req_UserId r) = Inr u \<and>
           count_list (RefreshTokens u) (req_RefreshToken r) = 1)) \<and>
   (tokens_distinct s0 i \<longrightarrow> tokens_distinct (token_ops s0 ops) i)"
  using TokenRefreshed_twice [of s r now st s1 now' st' s2] token_ops_tokens_distinct [of s0 i ops]
  by blast

theorem TokenRefreshed_no_duplicates_witness:
  "tokens_distinct demo_store ''t1'' \<and>
   (\<exists>st s1 st' s2.
      TokenRefreshed demo_store 300 (Some tok1) = (Ok st, s1) \<and>
      TokenRefreshed s1 301 (Some tok1) = (Ok st', s2) \<and>
      (\<exists>u. GetUserByID s2 ''t1'' ''u1'' = Inr u \<and> count_list (RefreshTokens u) ''tok1'' = 1)) \<and>
   tokens_distinct
     (token_ops demo_store [Issue 300 (Some tok1), Issue 301 (Some tok1), Revoke 302 (Some tok1),
        Issue 303 (Some tok2)]) ''t1''"
proof -
  have inv: "tokens_distinct demo_store ''t1''"
    by (simp add: tokens_distinct_def demo_defs)
  define s1 where "s1 = snd (TokenRefreshed demo_store 300 (Some tok1))"
  define s2 where "s2 = snd (TokenRefreshed s1 301 (Some tok1))"
  define st where "st = \<lparr>Status = NORMAL, Msg = ''token refresh time updated''\<rparr>"
  have "fst (TokenRefreshed demo_store 300 (Some tok1)) = Ok st"
    by (simp add: token_handler_defs demo_defs tok1_def st_def)
  then have one: "TokenRefreshed demo_store 300 (Some tok1) = (Ok st, s1)"
    by (simp add: s1_def prod_eq_iff)
  have "fst (TokenRefreshed s1 301 (Some tok1)) = Ok st"
    by (simp add: s1_def token_handler_defs demo_defs tok1_def st_def)
  then have two: "TokenRefreshed s1 301 (Some tok1) = (Ok st, s2)"
    by (simp add: s2_def prod_eq_iff)
  note T = TokenRefreshed_no_duplicates [where s = demo_store and r = tok1 and now = 300
      and now' = 301 and st = st and st' = st and ?s1.0 = s1 and ?s2.0 = s2 and ?s0.0 = demo_store
      and i = "''t1''"
      and ops = "[Issue 300 (Some tok1), Issue 301 (Some tok1), Revoke 302 (Some tok1),
        Issue 303 (Some tok2)]"]
  have i: "req_InstanceId tok1 = ''t1''" "req_UserId tok1 = ''u1''" "req_RefreshToken tok1 = ''tok1''"
    by (simp_all add: tok1_def)
  from T inv one two have
    a: "\<exists>u. GetUserByID s2 ''t1'' ''u1'' = Inr u \<and> count_list (RefreshTokens u) ''tok1'' = 1"
    by (simp add: i)
  from T inv have b: "tokens_distinct
     (token_ops demo_store [Issue 300 (Some tok1), Issue 301 (Some tok1), Revoke 302 (Some tok1),
        Issue 303 (Some tok2)]) ''t1''"
    by blast
  from inv one two a b show ?thesis by blast
qed

subsection \<open>Revoking\<close>

lemma CheckRefreshToken_after_success:
  assumes "CheckRefreshToken s now (Some r) = (Ok st, s1)"
  shows "CheckRefreshToken s1 now' (Some r) = (Err Internal ''token not found'', s1)"
proof -
  let ?i = "req_InstanceId r" and ?x = "req_UserId r" and ?t = "req_RefreshToken r"
  from assms have wf: "?t \<noteq> []" "?x \<noteq> []" "?i \<noteq> []"
    by (auto simp: CheckRefreshToken_def split: if_splits)
  from assms wf obtain u where u: "GetUserByID s ?i ?x = Inr u"
    by (cases "GetUserByID s ?i ?x") (auto simp: CheckRefreshToken_def)
  define u1 where "u1 = u\<lparr>RefreshTokens := removeAll ?t (RefreshTokens u),
                   Timestamps := (Timestamps u)\<lparr>LastTokenRefresh := now\<rparr>\<rparr>"
  have id1: "ID u1 = ?x" using GetUserByID_Inr [OF u] by (simp add: u1_def)
  from assms have s1: "s1 = s\<lparr>users := (users s)(?i := replace_user u1 (users s ?i))\<rparr>"
    by (auto simp: CheckRefreshToken_resolved [OF wf u] Let_def u1_def split: if_splits option.splits)
  have g1: "GetUserByID s1 ?i ?x = Inr u1"
    unfolding s1 by (rule GetUserByID_after_replace [OF u id1])
  have "?t \<notin> set (RefreshTokens u1)" by (simp add: u1_def)
  then show ?thesis
    by (simp add: CheckRefreshToken_resolved [OF wf g1])
qed

text \<open>
  C2. For a well-formed request whose user the store resolves, and a store whose write
  failure (if any) does not itself read ``token not found'': CheckRefreshToken fails with
  ``token not found'' exactly when the token is not among the account's refresh tokens, and
  then the store is left as it was; and when a call succeeded, or failed in this way, the
  next call with the same request fails with ``token not found''.
\<close>

theorem CheckRefreshToken_token_not_found:
  assumes "req_RefreshToken r \<noteq> []" "req_UserId r \<noteq> []" "req_InstanceId r \<noteq> []"
    and "GetUserByID s (req_InstanceId r) (req_UserId r) = Inr u"
    and "write_fault s (req_InstanceId r) \<noteq> Some ''token not found''"
  shows
    "(fst (CheckRefreshToken s now (Some r)) = Err Internal ''token not found''
        \<longleftrightarrow> req_RefreshToken r \<notin> set (RefreshTokens u)) \<and>
     (req_RefreshToken r \<notin> set (RefreshTokens u) \<longrightarrow>
        CheckRefreshToken s now (Some r) = (Err Internal ''token not found'', s)) \<and>
     (\<forall>s1. (\<exists>st. CheckRefreshToken s now (Some r) = (Ok st, s1)) \<or>
            CheckRefreshToken s now (Some r) = (Err Internal ''token not found'', s1) \<longrightarrow>
          CheckRefreshToken s1 now' (Some r) = (Err Internal ''token not found'', s1))"
proof (intro conjI allI impI)
  show "fst (CheckRefreshToken s now (Some r)) = Err Internal ''token not found''
        \<longleftrightarrow> req_RefreshToken r \<notin> set (RefreshTokens u)"
    using assms(5)
    by (auto simp: CheckRefreshToken_resolved [OF assms(1-4)] Let_def split: option.splits)
  assume "req_RefreshToken r \<notin> set (RefreshTokens u)"
  then show "CheckRefreshToken s now (Some r) = (Err Internal ''token not found'', s)"
    by (simp add: CheckRefreshToken_resolved [OF assms(1-4)])
next
  fix s1
  assume "(\<exists>st. CheckRefreshToken s now (Some r) = (Ok st, s1)) \<or>
            CheckRefreshToken s now (Some r) = (Err Internal ''token not found'', s1)"
  then show "CheckRefreshToken s1 now' (Some r) = (Err Internal ''token not found'', s1)"
  proof (elim disjE exE)
    fix st assume "CheckRefreshToken s now (Some r) = (Ok st, s1)"
    then show ?thesis by (rule CheckRefreshToken_after_success)
  next
    assume a: "CheckRefreshToken s now (Some r) = (Err Internal ''token not found'', s1)"
    with assms(5) have "req_RefreshToken r \<notin> set (RefreshTokens u) \<and> s1 = s"
      by (auto simp: CheckRefreshToken_resolved [OF assms(1-4)] Let_def split: option.splits if_splits)
    then show ?thesis
      by (simp add: CheckRefreshToken_resolved [OF assms(1-4)])
  qed
qed

theorem CheckRefreshToken_token_not_found_witness:
  "GetUserByID session_store ''t1'' ''u1'' = Inr (alice\<lparr>RefreshTokens := [''tok1'']\<rparr>) \<and>
   write_fault session_store ''t1'' = None \<and>
   CheckRefreshToken session_store 300 (Some tok2) = (Err Internal ''token not found'', session_store) \<and>
   (\<exists>st s1. CheckRefreshToken session_store 300 (Some tok1) = (Ok st, s1) \<and>
      CheckRefreshToken s1 301 (Some tok1) = (Err Internal ''token not found'', s1))"
proof -
  let ?u = "alice\<lparr>RefreshTokens := [''tok1'']\<rparr>"
  have g: "GetUserByID session_store ''t1'' ''u1'' = Inr ?u"
    by (simp add: GetUserByID_def session_store_def demo_defs)
  have w: "write_fault session_store ''t1'' = None"
    by (simp add: session_store_def demo_defs)
  have g1: "GetUserByID session_store (req_InstanceId tok1) (req_UserId tok1) = Inr ?u"
    and g2: "GetUserByID session_store (req_InstanceId tok2) (req_UserId tok2) = Inr ?u"
    using g by (simp_all add: tok1_def tok2_def)
  have w1: "write_fault session_store (req_InstanceId tok1) \<noteq> Some ''token not found''"
    and w2: "write_fault session_store (req_InstanceId tok2) \<noteq> Some ''token not found''"
    using w by (simp_all add: tok1_def tok2_def)
  note A = CheckRefreshToken_token_not_found [where r = tok2 and s = session_store and now = 300
      and now' = 301, OF _ _ _ g2 w2]
  note B = CheckRefreshToken_token_not_found [where r = tok1 and s = session_store and now = 300
      and now' = 301, OF _ _ _ g1 w1]
  have a: "CheckRefreshToken session_store 300 (Some tok2) = (Err Internal ''token not found'', session_store)"
    using A by (simp add: tok2_def)
  define s1 where "s1 = snd (CheckRefreshToken session_store 300 (Some tok1))"
  have "fst (CheckRefreshToken session_store 300 (Some tok1)) = Ok \<lparr>Status = NORMAL, Msg = ''refresh token removed''\<rparr>"
    by (simp add: token_handler_defs session_store_def demo_defs tok1_def)
  then have one: "CheckRefreshToken session_store 300 (Some tok1)
      = (Ok \<lparr>Status = NORMAL, Msg = ''refresh token removed''\<rparr>, s1)"
    by (simp add: s1_def prod_eq_iff)
  have wf: "req_RefreshToken tok1 \<noteq> []" "req_UserId tok1 \<noteq> []" "req_InstanceId tok1 \<noteq> []"
    by (simp_all add: tok1_def)
  from B [OF wf] one have "CheckRefreshToken s1 301 (Some tok1) = (Err Internal ''token not found'', s1)"
    by blast
  with g w a one show ?thesis by blast
qed

section \<open>The clean-up job\<close>

lemmas sweep_defs = sweep_store_def stuck_store_def timer_def bob_def carol_def dave_def demo_defs

lemma int64_id: "- (2 ^ 63) \<le> x \<Longrightarrow> x < 2 ^ 63 \<Longrightarrow> int64 x = x"
  by (simp add: int64_def)

lemma DeleteUnverfiedUsers_users:
  "users (snd (DeleteUnverfiedUsers s i c)) j =
     (if j = i \<and> write_fault s i = None
      then filter (\<lambda>u. \<not> unverified_before c u) (users s i) else users s j)"
  by (simp add: DeleteUnverfiedUsers_def split: option.splits)

lemma DeleteUnverfiedUsers_faults:
  "write_fault (snd (DeleteUnverfiedUsers s i c)) = write_fault s"
  "read_fault (snd (DeleteUnverfiedUsers s i c)) = read_fault s"
  by (simp_all add: DeleteUnverfiedUsers_def split: option.splits)

lemma clean_up_loop_Cons:
  "clean_up_loop s clock thr (inst # instances) =
     (let r = DeleteUnverfiedUsers s (InstanceID inst) (int64 (clock 0 - thr));
          rest = clean_up_loop (snd r) (\<lambda>k. clock (Suc k)) thr instances
      in ((case snd (fst r) of Some e \<Rightarrow> Unexpected e
           | None \<Rightarrow> Removed (InstanceID inst) (fst (fst r))) # fst rest, snd rest))"
  by (simp add: Let_def split: prod.splits option.splits)

lemma clean_up_loop_faults:
  "write_fault (snd (clean_up_loop s clock thr instances)) = write_fault s \<and>
   read_fault (snd (clean_up_loop s clock thr instances)) = read_fault s"
  by (induction instances arbitrary: s clock)
     (simp_all add: clean_up_loop_Cons Let_def DeleteUnverfiedUsers_faults del: clean_up_loop.simps(2))

text \<open>The store after a run at one time.\<close>

lemma clean_up_loop_users:
  "users (snd (clean_up_loop s (\<lambda>_. now) thr instances)) j =
     (if j \<in> InstanceID ` set instances \<and> write_fault s j = None
      then filter (\<lambda>u. \<not> unverified_before (int64 (now - thr)) u) (users s j) else users s j)"
proof (induction instances arbitrary: s)
  case Nil
  then show ?case by simp
next
  case (Cons inst instances)
  show ?case
    by (auto simp: clean_up_loop_Cons Let_def Cons.IH DeleteUnverfiedUsers_users
        DeleteUnverfiedUsers_faults simp del: clean_up_loop.simps(2))
qed

text \<open>The lines of the loop, whatever the clock shows.\<close>

lemma clean_up_loop_log:
  "list_all2
     (\<lambda>inst l. case write_fault s (InstanceID inst) of
                  Some e \<Rightarrow> l = Unexpected e
                | None \<Rightarrow> (\<exists>n. l = Removed (InstanceID inst) n))
     instances (fst (clean_up_loop s clock thr instances))"
proof (induction instances arbitrary: s clock)
  case Nil
  then show ?case by simp
next
  case (Cons inst instances)
  let ?r = "DeleteUnverfiedUsers s (InstanceID inst) (int64 (clock 0 - thr))"
  have hd: "snd (fst ?r) = write_fault s (InstanceID inst)"
    by (simp add: DeleteUnverfiedUsers_def split: option.splits)
  from Cons.IH [of "snd ?r" "\<lambda>k. clock (Suc k)"] hd show ?case
    by (simp add: clean_up_loop_Cons Let_def DeleteUnverfiedUsers_faults split: option.splits
        del: clean_up_loop.simps(2))
qed

lemma filter_neg_id: "filter P xs = [] \<Longrightarrow> filter (\<lambda>x. \<not> P x) xs = xs"
  by (induction xs) (auto split: if_splits)

lemma DeleteUnverfiedUsers_nothing:
  assumes "write_fault s i = None \<longrightarrow> filter (unverified_before c) (users s i) = []"
  shows "DeleteUnverfiedUsers s i c = ((0, write_fault s i), s)"
  using assms by (auto simp: DeleteUnverfiedUsers_def filter_neg_id split: option.splits)

lemma clean_up_loop_nothing:
  assumes "\<forall>inst \<in> set instances. write_fault s (InstanceID inst) = None \<longrightarrow>
             filter (unverified_before (int64 (now - thr))) (users s (InstanceID inst)) = []"
  shows "clean_up_loop s (\<lambda>_. now) thr instances =
           (map (\<lambda>inst. case write_fault s (InstanceID inst) of
                           Some e \<Rightarrow> Unexpected e
                         | None \<Rightarrow> Removed (InstanceID inst) 0) instances, s)"
  using assms
proof (induction instances)
  case Nil
  then show ?case by simp
next
  case (Cons inst instances)
  then show ?case
    by (simp add: clean_up_loop_Cons Let_def DeleteUnverfiedUsers_nothing split: option.splits
        del: clean_up_loop.simps(2))
qed

lemma CleanUpUnverifiedUsers_loop:
  "GetAllInstances svc = (instances, err) \<Longrightarrow>
   CleanUpUnverifiedUsers svc s clock =
     (Starting # (case err of Some e \<Rightarrow> [Unexpected e] | None \<Rightarrow> []) @
        fst (clean_up_loop s clock (CleanUpTimeThreshold svc) instances),
      snd (clean_up_loop s clock (CleanUpTimeThreshold svc) instances))"
  by (simp add: CleanUpUnverifiedUsers_def Let_def split: prod.splits)

text \<open>
  C8. A run at time \<open>now\<close> whose cutoff \<open>now - CleanUpTimeThreshold\<close> does not overflow:
  in every enumerated tenant whose deletion call succeeds, the accounts that remain are
  exactly those that are confirmed or not older than the cutoff; in no tenant is an account
  deleted that is confirmed or not older than the cutoff; and a second run at the same time
  leaves the store as the first run left it, every count it logs being 0. For the second
  run the store may fail differently (\<open>wf2\<close>), as long as the tenants it then reaches were
  reached by the first run.
\<close>

theorem CleanUpUnverifiedUsers_deletes_unverified:
  assumes "GetAllInstances svc = (instances, err)"
    and "- (2 ^ 63) \<le> now - CleanUpTimeThreshold svc" "now - CleanUpTimeThreshold svc < 2 ^ 63"
  shows
    "(\<forall>inst \<in> set instances. write_fault s (InstanceID inst) = None \<longrightarrow>
        users (snd (CleanUpUnverifiedUsers svc s (\<lambda>_. now))) (InstanceID inst) =
          filter (\<lambda>u. \<not> (AccountConfirmedAt (Account u) = 0 \<and>
                           CreatedAt (Timestamps u) < now - CleanUpTimeThreshold svc))
            (users s (InstanceID inst))) \<and>
     (\<forall>i u. u \<in> set (users s i) \<and>
            u \<notin> set (users (snd (CleanUpUnverifiedUsers svc s (\<lambda>_. now))) i) \<longrightarrow>
        AccountConfirmedAt (Account u) = 0 \<and>
        CreatedAt (Timestamps u) < now - CleanUpTimeThreshold svc) \<and>
     (\<forall>wf2. (\<forall>inst \<in> set instances.
                 wf2 (InstanceID inst) = None \<longrightarrow> write_fault s (InstanceID inst) = None) \<longrightarrow>
        snd (CleanUpUnverifiedUsers svc
               (snd (CleanUpUnverifiedUsers svc s (\<lambda>_. now))\<lparr>write_fault := wf2\<rparr>) (\<lambda>_. now)) =
          snd (CleanUpUnverifiedUsers svc s (\<lambda>_. now))\<lparr>write_fault := wf2\<rparr> \<and>
        (\<forall>l \<in> set (fst (CleanUpUnverifiedUsers svc
                 (snd (CleanUpUnverifiedUsers svc s (\<lambda>_. now))\<lparr>write_fault := wf2\<rparr>) (\<lambda>_. now))).
           \<forall>i n. l = Removed i n \<longrightarrow> n = 0))"
proof -
  let ?thr = "CleanUpTimeThreshold svc"
  let ?s' = "snd (CleanUpUnverifiedUsers svc s (\<lambda>_. now))"
  have c: "int64 (now - ?thr) = now - ?thr"
    using assms(2,3) by (rule int64_id)
  have s': "?s' = snd (clean_up_loop s (\<lambda>_. now) ?thr instances)"
    by (simp add: CleanUpUnverifiedUsers_loop [OF assms(1)])
  have u: "users ?s' j =
     (if j \<in> InstanceID ` set instances \<and> write_fault s j = None
      then filter (\<lambda>u. \<not> unverified_before (now - ?thr) u) (users s j) else users s j)" for j
    unfolding s' clean_up_loop_users c ..
  have 1: "\<forall>inst \<in> set instances. write_fault s (InstanceID inst) = None \<longrightarrow>
        users ?s' (InstanceID inst) =
          filter (\<lambda>u. \<not> (AccountConfirmedAt (Account u) = 0 \<and>
                           CreatedAt (Timestamps u) < now - ?thr))
            (users s (InstanceID inst))"
    by (simp add: u unverified_before_def)
  have 2: "\<forall>i u. u \<in> set (users s i) \<and> u \<notin> set (users ?s' i) \<longrightarrow>
        AccountConfirmedAt (Account u) = 0 \<and> CreatedAt (Timestamps u) < now - ?thr"
    by (auto simp: u unverified_before_def split: if_splits)
  have 3: "snd (CleanUpUnverifiedUsers svc (?s'\<lparr>write_fault := wf2\<rparr>) (\<lambda>_. now)) =
             ?s'\<lparr>write_fault := wf2\<rparr> \<and>
           (\<forall>l \<in> set (fst (CleanUpUnverifiedUsers svc (?s'\<lparr>write_fault := wf2\<rparr>) (\<lambda>_. now))).
              \<forall>i n. l = Removed i n \<longrightarrow> n = 0)"
    if reach: "\<forall>inst \<in> set instances.
                 wf2 (InstanceID inst) = None \<longrightarrow> write_fault s (InstanceID inst) = None" for wf2
  proof -
    let ?s2 = "?s'\<lparr>write_fault := wf2\<rparr>"
    have again: "clean_up_loop ?s2 (\<lambda>_. now) ?thr instances =
           (map (\<lambda>inst. case write_fault ?s2 (InstanceID inst) of
                           Some e \<Rightarrow> Unexpected e
                         | None \<Rightarrow> Removed (InstanceID inst) 0) instances, ?s2)"
      by (rule clean_up_loop_nothing) (use reach in \<open>simp add: u c\<close>)
    show ?thesis
      by (auto simp: CleanUpUnverifiedUsers_loop [OF assms(1), of ?s2] again split: option.splits)
  qed
  from 1 2 3 show ?thesis by blast
qed

theorem CleanUpUnverifiedUsers_deletes_unverified_witness:
  "GetAllInstances timer = ([\<lparr>InstanceID = ''t1''\<rparr>, \<lparr>InstanceID = ''t2''\<rparr>], None) \<and>
   - (2 ^ 63) \<le> 1000 - CleanUpTimeThreshold timer \<and> 1000 - CleanUpTimeThreshold timer < 2 ^ 63 \<and>
   write_fault sweep_store ''t1'' = None \<and> write_fault sweep_store ''t2'' = None \<and>
   users (snd (CleanUpUnverifiedUsers timer sweep_store (\<lambda>_. 1000))) ''t1'' = [] \<and>
   users (snd (CleanUpUnverifiedUsers timer sweep_store (\<lambda>_. 1000))) ''t2'' = [carol, dave] \<and>
   snd (CleanUpUnverifiedUsers timer
          (snd (CleanUpUnverifiedUsers timer sweep_store (\<lambda>_. 1000))) (\<lambda>_. 1000)) =
     snd (CleanUpUnverifiedUsers timer sweep_store (\<lambda>_. 1000))"
proof -
  have g: "GetAllInstances timer = ([\<lparr>InstanceID = ''t1''\<rparr>, \<lparr>InstanceID = ''t2''\<rparr>], None)"
    by (simp add: timer_def)
  have b: "- (2 ^ 63) \<le> 1000 - CleanUpTimeThreshold timer" "1000 - CleanUpTimeThreshold timer < 2 ^ 63"
    by (simp_all add: timer_def)
  have w: "write_fault sweep_store ''t1'' = None" "write_fault sweep_store ''t2'' = None"
    by (simp_all add: sweep_defs)
  have f1: "filter (\<lambda>u. \<not> (AccountConfirmedAt (Account u) = 0 \<and>
                 CreatedAt (Timestamps u) < 1000 - CleanUpTimeThreshold timer))
              (users sweep_store ''t1'') = []"
    by (simp add: sweep_defs)
  have f2: "filter (\<lambda>u. \<not> (AccountConfirmedAt (Account u) = 0 \<and>
                 CreatedAt (Timestamps u) < 1000 - CleanUpTimeThreshold timer))
              (users sweep_store ''t2'') = [carol, dave]"
    by (simp add: sweep_defs)
  note T = CleanUpUnverifiedUsers_deletes_unverified [OF g b, of sweep_store]
  from T w f1 have 1: "users (snd (CleanUpUnverifiedUsers timer sweep_store (\<lambda>_. 1000))) ''t1'' = []"
    by simp
  from T w f2 have 2: "users (snd (CleanUpUnverifiedUsers timer sweep_store (\<lambda>_. 1000))) ''t2'' = [carol, dave]"
    by simp
  have wf: "write_fault (snd (CleanUpUnverifiedUsers timer sweep_store (\<lambda>_. 1000))) =
      write_fault sweep_store"
    unfolding CleanUpUnverifiedUsers_loop [OF g] snd_conv
    by (rule clean_up_loop_faults [THEN conjunct1])
  have same: "snd (CleanUpUnverifiedUsers timer sweep_store (\<lambda>_. 1000))
      \<lparr>write_fault := write_fault sweep_store\<rparr> = snd (CleanUpUnverifiedUsers timer sweep_store (\<lambda>_. 1000))"
    unfolding wf [symmetric] by simp
  from T have "snd (CleanUpUnverifiedUsers timer
          (snd (CleanUpUnverifiedUsers timer sweep_store (\<lambda>_. 1000))
             \<lparr>write_fault := write_fault sweep_store\<rparr>) (\<lambda>_. 1000)) =
     snd (CleanUpUnverifiedUsers timer sweep_store (\<lambda>_. 1000))\<lparr>write_fault := write_fault sweep_store\<rparr>"
    by blast
  then have 3: "snd (CleanUpUnverifiedUsers timer
          (snd (CleanUpUnverifiedUsers timer sweep_store (\<lambda>_. 1000))) (\<lambda>_. 1000)) =
     snd (CleanUpUnverifiedUsers timer sweep_store (\<lambda>_. 1000))"
    by (simp only: same)
  from g b w 1 2 3 show ?thesis by blast
qed

text \<open>
  C9. Whatever tenants fail and whatever the clock shows: after the opening lines the log
  holds one line for every enumerated tenant, in order, the error of its deletion call or
  the count it removed. In a run at one time, every enumerated tenant whose call succeeds
  has been swept, and every failing one is left as it was.
\<close>

theorem CleanUpUnverifiedUsers_continues:
  assumes "GetAllInstances svc = (instances, err)"
  shows
    "list_all2
       (\<lambda>inst l. case write_fault s (InstanceID inst) of
                    Some e \<Rightarrow> l = Unexpected e
                  | None \<Rightarrow> (\<exists>n. l = Removed (InstanceID inst) n))
       instances
       (drop (if err = None then 1 else 2) (fst (CleanUpUnverifiedUsers svc s clock))) \<and>
     (\<forall>inst \<in> set instances.
        users (snd (CleanUpUnverifiedUsers svc s (\<lambda>_. now))) (InstanceID inst) =
          (if write_fault s (InstanceID inst) = None
           then filter (\<lambda>u. \<not> unverified_before (int64 (now - CleanUpTimeThreshold svc)) u)
                  (users s (InstanceID inst))
           else users s (InstanceID inst)))"
proof
  have "drop (if err = None then 1 else 2) (fst (CleanUpUnverifiedUsers svc s clock)) =
      fst (clean_up_loop s clock (CleanUpTimeThreshold svc) instances)"
    by (simp add: CleanUpUnverifiedUsers_loop [OF assms] split: option.splits)
  then show "list_all2
       (\<lambda>inst l. case write_fault s (InstanceID inst) of
                    Some e \<Rightarrow> l = Unexpected e
                  | None \<Rightarrow> (\<exists>n. l = Removed (InstanceID inst) n))
       instances
       (drop (if err = None then 1 else 2) (fst (CleanUpUnverifiedUsers svc s clock)))"
    by (simp add: clean_up_loop_log)
  show "\<forall>inst \<in> set instances.
        users (snd (CleanUpUnverifiedUsers svc s (\<lambda>_. now))) (InstanceID inst) =
          (if write_fault s (InstanceID inst) = None
           then filter (\<lambda>u. \<not> unverified_before (int64 (now - CleanUpTimeThreshold svc)) u)
                  (users s (InstanceID inst))
           else users s (InstanceID inst))"
    by (simp add: CleanUpUnverifiedUsers_loop [OF assms] clean_up_loop_users)
qed

theorem CleanUpUnverifiedUsers_continues_witness:
  "GetAllInstances timer = ([\<lparr>InstanceID = ''t1''\<rparr>, \<lparr>InstanceID = ''t2''\<rparr>], None) \<and>
   write_fault stuck_store ''t1'' = Some ''connection lost'' \<and>
   write_fault stuck_store ''t2'' = None \<and>
   (\<exists>n. fst (CleanUpUnverifiedUsers timer stuck_store (\<lambda>_. 1000)) =
      [Starting, Unexpected ''connection lost'', Removed ''t2'' n]) \<and>
   users (snd (CleanUpUnverifiedUsers timer stuck_store (\<lambda>_. 1000))) ''t1'' = [alice] \<and>
   users (snd (CleanUpUnverifiedUsers timer stuck_store (\<lambda>_. 1000))) ''t2'' = [carol, dave]"
proof -
  let ?run = "CleanUpUnverifiedUsers timer stuck_store (\<lambda>_. 1000)"
  have g: "GetAllInstances timer = ([\<lparr>InstanceID = ''t1''\<rparr>, \<lparr>InstanceID = ''t2''\<rparr>], None)"
    by (simp add: timer_def)
  have w: "write_fault stuck_store ''t1'' = Some ''connection lost''" "write_fault stuck_store ''t2'' = None"
    by (simp_all add: sweep_defs)
  have u: "users stuck_store ''t1'' = [alice]"
    "filter (\<lambda>u. \<not> unverified_before (int64 (1000 - CleanUpTimeThreshold timer)) u)
       (users stuck_store ''t2'') = [carol, dave]"
    by (simp_all add: sweep_defs unverified_before_def int64_def)
  have len: "length (fst ?run) = 3" and h: "hd (fst ?run) = Starting"
    by (simp_all add: CleanUpUnverifiedUsers_def timer_def split: prod.splits option.splits)
  note T = CleanUpUnverifiedUsers_continues [OF g, of stuck_store "\<lambda>_. 1000" 1000]
  from T w u have 1: "users (snd ?run) ''t1'' = [alice]"
    and 2: "users (snd ?run) ''t2'' = [carol, dave]"
    by simp_all
  obtain l0 l1 l2 where l: "fst ?run = [l0, l1, l2]"
    using len by (auto simp: length_Suc_conv numeral_3_eq_3)
  with h have l0: "l0 = Starting" by simp
  from T l w have "l1 = Unexpected ''connection lost'' \<and> (\<exists>n. l2 = Removed ''t2'' n)"
    by (simp add: list_all2_Cons1)
  with l l0 have 3: "\<exists>n. fst ?run = [Starting, Unexpected ''connection lost'', Removed ''t2'' n]"
    by auto
  from g w 1 2 3 show ?thesis by blast
qed

end
